theory Spec2Isabelle
  imports Main
begin

section \<open>Values exchanged with the outside\<close>

text \<open>
  The server (\<^verbatim>\<open>src/index.ts\<close>, class \<^verbatim>\<open>MyntraSellerMCPServer\<close>) is modelled by
  explicit state passing. Strings are byte strings. A value of a field that may be
  \<^verbatim>\<open>undefined\<close> is an \<open>option\<close>, \<open>None\<close> standing for \<^verbatim>\<open>undefined\<close>. Numbers are
  the integer-valued ones; \<open>None\<close> in a numeric field also stands for \<^verbatim>\<open>NaN\<close>, which
  the code only ever tests for truthiness.
\<close>

datatype json =
    JNull
  | JBool bool
  | JNum int
  | JStr string
  | JArr "json list"
  | JObj "(string \<times> json) list"

text \<open>Truthiness of an optional string: \<^verbatim>\<open>undefined\<close> and \<^verbatim>\<open>''\<close> are falsy.\<close>

definition truthy :: "string option \<Rightarrow> bool" where
  "truthy v = (case v of None \<Rightarrow> False | Some s \<Rightarrow> s \<noteq> [])"

text \<open>A value interpolated into a template literal.\<close>

definition js_str :: "string option \<Rightarrow> string" where
  "js_str v = (case v of None \<Rightarrow> ''undefined'' | Some s \<Rightarrow> s)"

text \<open>\<^verbatim>\<open>a || b\<close> with a string \<open>b\<close>.\<close>

definition or_else :: "string option \<Rightarrow> string \<Rightarrow> string" where
  "or_else a b = (case a of None \<Rightarrow> b | Some s \<Rightarrow> if s = [] then b else s)"

text \<open>\<^verbatim>\<open>interface SellerTokens\<close>: every field is optional.\<close>

record SellerTokens =
  accessToken :: "string option"
  refreshToken :: "string option"
  expiresOn :: "int option"
  sellerId :: "string option"

text \<open>\<^verbatim>\<open>new Error(message)\<close>, and the \<^verbatim>\<open>McpError(code, message)\<close> the request handler throws.\<close>

datatype js_error = Error (message: string)

datatype ErrorCode = InternalError

datatype McpError = McpError ErrorCode string

text \<open>
  A tool reply \<^verbatim>\<open>{content: [{type: 'text', text}], isError?}\<close>; an absent
  \<^verbatim>\<open>isError\<close> is \<open>False\<close>.
\<close>

record ToolResult =
  content_text :: string
  isError :: bool

text \<open>An outbound HTTP request as axios receives it.\<close>

record http_request =
  req_method :: string
  req_url :: string
  req_headers :: "(string \<times> string) list"
  req_data :: "json option"

text \<open>
  What an axios call yields: the response's \<^verbatim>\<open>data\<close>, or a thrown error, of which
  the code reads \<^verbatim>\<open>error.response?.data?.message\<close> and \<^verbatim>\<open>error.message\<close>.
\<close>

datatype 'a outcome =
    Response 'a
  | Failure "string option" string

definition error_detail :: "string option \<Rightarrow> string \<Rightarrow> string" where
  "error_detail remote_message error_message = or_else remote_message error_message"

text \<open>
  The \<^verbatim>\<open>data\<close> of the token endpoints (\<^verbatim>\<open>/auth/token\<close>, \<^verbatim>\<open>/auth/refresh\<close>), with the
  three fields the code reads.
\<close>

record token_response =
  access_token :: "string option"
  refresh_token :: "string option"
  expires_in :: "int option"

text \<open>
  The arguments object of a tool call, typed as the \<^verbatim>\<open>inputSchema\<close>s of the catalog
  declare its properties; any property may be missing.
\<close>

record tool_args =
  seller_id :: "string option"
  api_key :: "string option"
  api_secret :: "string option"
  status :: "string option"
  category :: "string option"
  limit :: "int option"
  offset :: "int option"
  product_id :: "string option"
  sku :: "string option"
  name :: "string option"
  brand :: "string option"
  description :: "string option"
  mrp :: "int option"
  selling_price :: "int option"
  inventory :: "int option"
  images :: "string list option"
  updates :: "(string \<times> json) list option"
  quantity :: "int option"
  from_date :: "string option"
  to_date :: "string option"
  order_id :: "string option"
  tracking_id :: "string option"
  courier_partner :: "string option"
  return_id :: "string option"
  action :: "string option"
  reason :: "string option"
  metric :: "string option"

text \<open>The empty arguments object \<^verbatim>\<open>{}\<close>.\<close>

definition no_args :: tool_args where
  "no_args = \<lparr> seller_id = None, api_key = None, api_secret = None, status = None,
     category = None, limit = None, offset = None, product_id = None, sku = None,
     name = None, brand = None, description = None, mrp = None, selling_price = None,
     inventory = None, images = None, updates = None, quantity = None, from_date = None,
     to_date = None, order_id = None, tracking_id = None, courier_partner = None,
     return_id = None, action = None, reason = None, metric = None \<rparr>"

section \<open>Environment and state\<close>

text \<open>
  Everything the process does not control is an oracle of the environment, indexed by
  the number of events of its kind so far: whether the \<open>k\<close>-th Redis command throws,
  what the \<open>k\<close>-th reading of \<^verbatim>\<open>Date.now()\<close> is (epoch milliseconds, never
  negative), and what the remote answers to the \<open>k\<close>-th request. \<open>redis_enabled\<close> says
  whether \<^verbatim>\<open>this.redis\<close> is set, that is, whether \<^verbatim>\<open>REDIS_URL\<close> was given; the build
  of the server that keeps tokens in memory only is the case where it is not. A Redis
  command that throws has no effect on the database, and the expiry of Redis keys after
  seven days is outside the model. The text templates of the catalog tools, which format
  the remote's reply (and may throw on a reply of an unexpected shape), are the
  parameters \<open>render\<close> and \<open>render_status\<close>: the properties below hold for every choice
  of them.
\<close>

record env =
  myntraApiBase :: string
  redis_enabled :: bool
  redis_fails :: "nat \<Rightarrow> bool"
  clock :: "nat \<Rightarrow> nat"
  auth_remote :: "nat \<Rightarrow> http_request \<Rightarrow> token_response outcome"
  api_remote :: "nat \<Rightarrow> http_request \<Rightarrow> json outcome"
  render :: "string \<Rightarrow> tool_args \<Rightarrow> json \<Rightarrow> js_error + string"
  render_status :: "string \<Rightarrow> json \<Rightarrow> js_error + string"

text \<open>
  The state: the in-process map \<^verbatim>\<open>sellerTokens\<close>, the content of the Redis database
  (the JSON text of a record is identified with the record), the number of Redis
  commands issued, the number of clock readings, and the requests sent so far.
\<close>

record state =
  sellerTokens :: "string \<rightharpoonup> SellerTokens"
  redis_db :: "string \<rightharpoonup> SellerTokens"
  redis_ops :: nat
  clock_reads :: nat
  sent :: "http_request list"

definition Date_now :: "env \<Rightarrow> state \<Rightarrow> nat \<times> state" where
  "Date_now E st = (clock E (clock_reads st), st\<lparr>clock_reads := Suc (clock_reads st)\<rparr>)"

section \<open>Token store\<close>

definition redis_key :: "string \<Rightarrow> string" where
  "redis_key sid = ''myntra_tokens:'' @ sid"

text \<open>\<^verbatim>\<open>this.sellerTokens.get(sellerId) || null\<close>; the map has string keys only.\<close>

definition map_get :: "state \<Rightarrow> string option \<Rightarrow> SellerTokens option" where
  "map_get st k = (case k of None \<Rightarrow> None | Some sid \<Rightarrow> sellerTokens st sid)"

definition storeTokens :: "env \<Rightarrow> state \<Rightarrow> string \<Rightarrow> SellerTokens \<Rightarrow> state" where
  "storeTokens E st sid tokens =
     (if redis_enabled E then
        (if redis_fails E (redis_ops st)
         then st\<lparr>sellerTokens := (sellerTokens st)(sid \<mapsto> tokens),
                 redis_ops := Suc (redis_ops st)\<rparr>
         else st\<lparr>redis_db := (redis_db st)(redis_key sid \<mapsto> tokens),
                 redis_ops := Suc (redis_ops st)\<rparr>)
      else st\<lparr>sellerTokens := (sellerTokens st)(sid \<mapsto> tokens)\<rparr>)"

text \<open>
  \<open>getTokens\<close> is also reached with \<^verbatim>\<open>args.seller_id\<close> of a handler (through
  \<open>makeApiRequest\<close>), so its argument may be \<^verbatim>\<open>undefined\<close>.
\<close>

definition getTokens :: "env \<Rightarrow> state \<Rightarrow> string option \<Rightarrow> SellerTokens option \<times> state" where
  "getTokens E st k =
     (if redis_enabled E then
        (if redis_fails E (redis_ops st)
         then (map_get st k, st\<lparr>redis_ops := Suc (redis_ops st)\<rparr>)
         else (redis_db st (redis_key (js_str k)), st\<lparr>redis_ops := Suc (redis_ops st)\<rparr>))
      else (map_get st k, st))"

definition revokeTokens :: "env \<Rightarrow> state \<Rightarrow> string \<Rightarrow> state" where
  "revokeTokens E st sid =
     (let st1 =
        (if redis_enabled E then
           (if redis_fails E (redis_ops st)
            then st\<lparr>redis_ops := Suc (redis_ops st)\<rparr>
            else st\<lparr>redis_db := (redis_db st)(redis_key sid := None),
                    redis_ops := Suc (redis_ops st)\<rparr>)
         else st)
      in st1\<lparr>sellerTokens := (sellerTokens st1)(sid := None)\<rparr>)"

section \<open>Session manager\<close>

text \<open>\<^verbatim>\<open>axios.post(url, body)\<close> to a token endpoint.\<close>

definition axios_post :: "env \<Rightarrow> state \<Rightarrow> string \<Rightarrow> json \<Rightarrow> token_response outcome \<times> state" where
  "axios_post E st u body =
     (let req = \<lparr> req_method = ''POST'', req_url = u, req_headers = [], req_data = Some body \<rparr>
      in (auth_remote E (length (sent st)) req, st\<lparr>sent := sent st @ [req]\<rparr>))"

text \<open>\<^verbatim>\<open>Date.now() + (response.data.expires_in * 1000)\<close>.\<close>

definition expiry :: "nat \<Rightarrow> int option \<Rightarrow> int option" where
  "expiry now e = (case e of None \<Rightarrow> None | Some n \<Rightarrow> Some (int now + n * 1000))"

text \<open>
  \<^verbatim>\<open>tokens.expiresOn && Date.now() < tokens.expiresOn\<close>: the clock is read only when
  \<^verbatim>\<open>expiresOn\<close> is truthy.
\<close>

definition not_expired :: "env \<Rightarrow> state \<Rightarrow> SellerTokens \<Rightarrow> bool \<times> state" where
  "not_expired E st tokens =
     (case expiresOn tokens of
        None \<Rightarrow> (False, st)
      | Some e \<Rightarrow>
          if e = 0 then (False, st)
          else (let (now, st1) = Date_now E st in (int now < e, st1)))"

definition checkAuthentication :: "env \<Rightarrow> state \<Rightarrow> string \<Rightarrow> bool \<times> state" where
  "checkAuthentication E st sid =
     (let (tokens, st1) = getTokens E st (Some sid) in
      case tokens of
        None \<Rightarrow> (False, st1)
      | Some t \<Rightarrow>
          if \<not> truthy (accessToken t) then (False, st1)
          else
            (let (fresh, st2) = not_expired E st1 t in
             if fresh then (True, st2)
             else
               (case refreshToken t of
                  None \<Rightarrow> (False, st2)
                | Some rt \<Rightarrow>
                    if rt = [] then (False, st2)
                    else
                      (let (r, st3) = axios_post E st2 (myntraApiBase E @ ''/auth/refresh'')
                                        (JObj [(''refresh_token'', JStr rt)])
                       in case r of
                            Response d \<Rightarrow>
                              (let (now, st4) = Date_now E st3;
                                   updatedTokens =
                                     \<lparr> accessToken = access_token d,
                                       refreshToken =
                                         (if truthy (refresh_token d) then refresh_token d
                                          else Some rt),
                                       expiresOn = expiry now (expires_in d),
                                       sellerId = Some sid \<rparr>
                               in (True, storeTokens E st4 sid updatedTokens))
                          | Failure rm m \<Rightarrow> (False, revokeTokens E st3 sid)))))"

text \<open>
  \<open>makeApiRequest\<close> returns the response's data or throws \<^verbatim>\<open>Error\<close>; no request is
  sent when there is no access token.
\<close>

definition makeApiRequest ::
  "env \<Rightarrow> state \<Rightarrow> string option \<Rightarrow> string \<Rightarrow> string \<Rightarrow> json option \<Rightarrow> (js_error + json) \<times> state" where
  "makeApiRequest E st k meth endpoint body =
     (let (tokens, st1) = getTokens E st k in
      case tokens of
        None \<Rightarrow> (Inl (Error ''Not authenticated''), st1)
      | Some t \<Rightarrow>
          if \<not> truthy (accessToken t) then (Inl (Error ''Not authenticated''), st1)
          else
            (let req = \<lparr> req_method = meth,
                         req_url = myntraApiBase E @ endpoint,
                         req_headers = [(''Authorization'', ''Bearer '' @ js_str (accessToken t)),
                                        (''Content-Type'', ''application/json'')],
                         req_data = body \<rparr>;
                 st2 = st1\<lparr>sent := sent st1 @ [req]\<rparr>
             in case api_remote E (length (sent st1)) req of
                  Response d \<Rightarrow> (Inr d, st2)
                | Failure rm m \<Rightarrow> (Inl (Error (error_detail rm m)), st2)))"

section \<open>Text helpers\<close>

definition nl :: string where
  "nl = [CHR 0x0A]"

text \<open>\<^verbatim>\<open>Number.prototype.toString\<close> on an integer.\<close>

definition digit_char :: "nat \<Rightarrow> char" where
  "digit_char d = ''0123456789'' ! d"

fun digits :: "nat \<Rightarrow> string" where
  "digits n = (if n < 10 then [digit_char n] else digits (n div 10) @ [digit_char (n mod 10)])"

declare digits.simps [simp del]

definition number_toString :: "int \<Rightarrow> string" where
  "number_toString i = (if 0 \<le> i then digits (nat i) else CHR ''-'' # digits (nat (- i)))"

text \<open>\<^verbatim>\<open>Math.floor(expires_in / 60)\<close> in a template literal.\<close>

definition minutes_text :: "int option \<Rightarrow> string" where
  "minutes_text e = (case e of None \<Rightarrow> ''NaN'' | Some n \<Rightarrow> number_toString (n div 60))"

text \<open>
  \<^verbatim>\<open>URLSearchParams.prototype.toString\<close>: the form-urlencoded serialisation of the
  appended pairs.
\<close>

definition hex_digit :: "nat \<Rightarrow> char" where
  "hex_digit n = ''0123456789ABCDEF'' ! n"

definition urlencode_byte :: "char \<Rightarrow> string" where
  "urlencode_byte c =
     (if c = CHR '' '' then ''+''
      else if c \<in> set ''ABCDEFGHIJKLMNOPQRSTUVWXYZabcdefghijklmnopqrstuvwxyz0123456789*-._''
      then [c]
      else [CHR ''%'', hex_digit (of_char c div 16), hex_digit (of_char c mod 16)])"

definition urlencode :: "string \<Rightarrow> string" where
  "urlencode s = concat (map urlencode_byte s)"

fun join :: "string \<Rightarrow> string list \<Rightarrow> string" where
  "join sep [] = []"
| "join sep [x] = x"
| "join sep (x # y # ys) = x @ sep @ join sep (y # ys)"

definition params_toString :: "(string \<times> string) list \<Rightarrow> string" where
  "params_toString ps = join ''&'' (map (\<lambda>(k, v). urlencode k @ ''='' @ urlencode v) ps)"

text \<open>\<^verbatim>\<open>if (v) params.append(k, v)\<close>.\<close>

definition append_if :: "string \<Rightarrow> string option \<Rightarrow> (string \<times> string) list" where
  "append_if k v = (if truthy v then [(k, js_str v)] else [])"

text \<open>An object literal as JSON text carries no \<^verbatim>\<open>undefined\<close> property.\<close>

definition json_fields :: "(string \<times> json option) list \<Rightarrow> (string \<times> json) list" where
  "json_fields fs = concat (map (\<lambda>(k, v). case v of None \<Rightarrow> [] | Some j \<Rightarrow> [(k, j)]) fs)"

definition json_object :: "(string \<times> json option) list \<Rightarrow> json" where
  "json_object fs = JObj (json_fields fs)"

section \<open>Authentication tools\<close>

definition missing_credentials :: ToolResult where
  "missing_credentials =
     \<lparr> content_text = ''Error: seller_id, api_key, and api_secret are required for authentication.'',
       isError = True \<rparr>"

definition already_authenticated :: "string \<Rightarrow> ToolResult" where
  "already_authenticated sid =
     \<lparr> content_text = ''Already authenticated with Myntra!'' @ nl @ nl @ ''Seller ID: '' @ sid,
       isError = False \<rparr>"

definition authenticated :: "string \<Rightarrow> int option \<Rightarrow> ToolResult" where
  "authenticated sid e =
     \<lparr> content_text = ''Successfully authenticated with Myntra!'' @ nl @ nl @ ''Seller ID: '' @ sid
          @ nl @ ''Token expires in: '' @ minutes_text e @ '' minutes'',
       isError = False \<rparr>"

definition authentication_failed :: "string \<Rightarrow> ToolResult" where
  "authentication_failed detail =
     \<lparr> content_text = ''Authentication failed: '' @ detail, isError = True \<rparr>"

text \<open>
  The body of \<open>handleAuthenticate\<close> is one \<^verbatim>\<open>try\<close>; the only statement of it that can
  throw is the axios call, and the \<^verbatim>\<open>catch\<close> turns that into a reply.
\<close>

definition handleAuthenticate :: "env \<Rightarrow> state \<Rightarrow> tool_args \<Rightarrow> ToolResult \<times> state" where
  "handleAuthenticate E st args =
     (if \<not> truthy (seller_id args) \<or> \<not> truthy (api_key args) \<or> \<not> truthy (api_secret args)
      then (missing_credentials, st)
      else
        (let sid = js_str (seller_id args);
             (ok, st1) = checkAuthentication E st sid
         in if ok then (already_authenticated sid, st1)
            else
              (let (r, st2) = axios_post E st1 (myntraApiBase E @ ''/auth/token'')
                                (JObj [(''seller_id'', JStr sid),
                                       (''api_key'', JStr (js_str (api_key args))),
                                       (''api_secret'', JStr (js_str (api_secret args)))])
               in case r of
                    Response d \<Rightarrow>
                      (let (now, st3) = Date_now E st2;
                           tokens = \<lparr> accessToken = access_token d,
                                      refreshToken = refresh_token d,
                                      expiresOn = expiry now (expires_in d),
                                      sellerId = Some sid \<rparr>
                       in (authenticated sid (expires_in d), storeTokens E st3 sid tokens))
                  | Failure rm m \<Rightarrow> (authentication_failed (error_detail rm m), st2))))"

definition handleStatus :: "env \<Rightarrow> state \<Rightarrow> string option \<Rightarrow> ToolResult \<times> state" where
  "handleStatus E st k =
     (if \<not> truthy k
      then (\<lparr> content_text = ''Error: seller_id is required'', isError = True \<rparr>, st)
      else
        (let (ok, st1) = checkAuthentication E st (js_str k) in
         if ok then
           (let (r, st2) = makeApiRequest E st1 k ''GET'' ''/account/info'' None;
                unable = (\<lambda>e. \<lparr> content_text = ''Connected but unable to fetch details: '' @ message e,
                                 isError = False \<rparr>)
            in case r of
                 Inl e \<Rightarrow> (unable e, st2)
               | Inr d \<Rightarrow>
                   (case render_status E (js_str k) d of
                      Inl e \<Rightarrow> (unable e, st2)
                    | Inr t \<Rightarrow> (\<lparr> content_text = t, isError = False \<rparr>, st2)))
         else
           (\<lparr> content_text = ''**Not connected to Myntra**'' @ nl @ nl
                 @ ''Run myntra_authenticate to get started.'',
              isError = False \<rparr>, st1)))"

section \<open>Catalog tools\<close>

text \<open>
  Every handler builds one request, passes it to \<open>makeApiRequest\<close> with
  \<^verbatim>\<open>args.seller_id\<close>, and formats the data it gets through its template; an error
  thrown by either step leaves the handler.
\<close>

definition reply ::
  "env \<Rightarrow> string \<Rightarrow> tool_args \<Rightarrow> (js_error + json) \<times> state \<Rightarrow> (js_error + ToolResult) \<times> state" where
  "reply E tool args rs =
     (case rs of
        (Inl e, st) \<Rightarrow> (Inl e, st)
      | (Inr d, st) \<Rightarrow>
          (case render E tool args d of
             Inl e \<Rightarrow> (Inl e, st)
           | Inr t \<Rightarrow> (Inr \<lparr> content_text = t, isError = False \<rparr>, st)))"

definition default_str :: "string option \<Rightarrow> string \<Rightarrow> string" where
  "default_str v d = (case v of None \<Rightarrow> d | Some s \<Rightarrow> s)"

definition default_num :: "int option \<Rightarrow> int \<Rightarrow> int" where
  "default_num v d = (case v of None \<Rightarrow> d | Some n \<Rightarrow> n)"

definition append_status :: "string \<Rightarrow> (string \<times> string) list" where
  "append_status s = (if s \<noteq> ''all'' then [(''status'', s)] else [])"

definition listProducts :: "env \<Rightarrow> state \<Rightarrow> tool_args \<Rightarrow> (js_error + ToolResult) \<times> state" where
  "listProducts E st args =
     (let params = append_status (default_str (status args) ''all'')
                   @ append_if ''category'' (category args)
                   @ [(''limit'', number_toString (default_num (limit args) 50)),
                      (''offset'', number_toString (default_num (offset args) 0))]
      in reply E ''myntra_list_products'' args
           (makeApiRequest E st (seller_id args) ''GET''
              (''/products?'' @ params_toString params) None))"

definition getProduct :: "env \<Rightarrow> state \<Rightarrow> tool_args \<Rightarrow> (js_error + ToolResult) \<times> state" where
  "getProduct E st args =
     reply E ''myntra_get_product'' args
       (makeApiRequest E st (seller_id args) ''GET''
          (''/products/'' @ js_str (product_id args)) None)"

definition createProduct :: "env \<Rightarrow> state \<Rightarrow> tool_args \<Rightarrow> (js_error + ToolResult) \<times> state" where
  "createProduct E st args =
     (let productData = json_object
            [(''sku'', map_option JStr (sku args)),
             (''name'', map_option JStr (name args)),
             (''brand'', map_option JStr (brand args)),
             (''category'', map_option JStr (category args)),
             (''description'', map_option JStr (description args)),
             (''mrp'', map_option JNum (mrp args)),
             (''selling_price'', map_option JNum (selling_price args)),
             (''inventory'', map_option JNum (inventory args)),
             (''images'', Some (JArr (case images args of None \<Rightarrow> [] | Some xs \<Rightarrow> map JStr xs)))]
      in reply E ''myntra_create_product'' args
           (makeApiRequest E st (seller_id args) ''POST'' ''/products'' (Some productData)))"

definition updateProduct :: "env \<Rightarrow> state \<Rightarrow> tool_args \<Rightarrow> (js_error + ToolResult) \<times> state" where
  "updateProduct E st args =
     reply E ''myntra_update_product'' args
       (makeApiRequest E st (seller_id args) ''PATCH''
          (''/products/'' @ js_str (product_id args)) (map_option JObj (updates args)))"

definition updateInventory :: "env \<Rightarrow> state \<Rightarrow> tool_args \<Rightarrow> (js_error + ToolResult) \<times> state" where
  "updateInventory E st args =
     reply E ''myntra_update_inventory'' args
       (makeApiRequest E st (seller_id args) ''PATCH''
          (''/products/'' @ js_str (product_id args) @ ''/inventory'')
          (Some (json_object [(''quantity'', map_option JNum (quantity args))])))"

definition listOrders :: "env \<Rightarrow> state \<Rightarrow> tool_args \<Rightarrow> (js_error + ToolResult) \<times> state" where
  "listOrders E st args =
     (let params = append_status (default_str (status args) ''all'')
                   @ append_if ''from_date'' (from_date args)
                   @ append_if ''to_date'' (to_date args)
                   @ [(''limit'', number_toString (default_num (limit args) 50))]
      in reply E ''myntra_list_orders'' args
           (makeApiRequest E st (seller_id args) ''GET''
              (''/orders?'' @ params_toString params) None))"

definition getOrder :: "env \<Rightarrow> state \<Rightarrow> tool_args \<Rightarrow> (js_error + ToolResult) \<times> state" where
  "getOrder E st args =
     reply E ''myntra_get_order'' args
       (makeApiRequest E st (seller_id args) ''GET''
          (''/orders/'' @ js_str (order_id args)) None)"

definition optional_field :: "string \<Rightarrow> string option \<Rightarrow> string \<times> json option" where
  "optional_field k v = (k, if truthy v then map_option JStr v else None)"

definition updateOrderStatus :: "env \<Rightarrow> state \<Rightarrow> tool_args \<Rightarrow> (js_error + ToolResult) \<times> state" where
  "updateOrderStatus E st args =
     (let updateData = json_object
            [(''status'', map_option JStr (status args)),
             optional_field ''tracking_id'' (tracking_id args),
             optional_field ''courier_partner'' (courier_partner args)]
      in reply E ''myntra_update_order_status'' args
           (makeApiRequest E st (seller_id args) ''PATCH''
              (''/orders/'' @ js_str (order_id args) @ ''/status'') (Some updateData)))"

definition getReturns :: "env \<Rightarrow> state \<Rightarrow> tool_args \<Rightarrow> (js_error + ToolResult) \<times> state" where
  "getReturns E st args =
     (let params = append_status (default_str (status args) ''pending'')
                   @ [(''limit'', number_toString (default_num (limit args) 25))]
      in reply E ''myntra_get_returns'' args
           (makeApiRequest E st (seller_id args) ''GET''
              (''/returns?'' @ params_toString params) None))"

definition processReturn :: "env \<Rightarrow> state \<Rightarrow> tool_args \<Rightarrow> (js_error + ToolResult) \<times> state" where
  "processReturn E st args =
     (let requestData = json_object
            [(''action'', map_option JStr (action args)),
             optional_field ''reason'' (reason args)]
      in reply E ''myntra_process_return'' args
           (makeApiRequest E st (seller_id args) ''POST''
              (''/returns/'' @ js_str (return_id args) @ ''/process'') (Some requestData)))"

definition getAnalytics :: "env \<Rightarrow> state \<Rightarrow> tool_args \<Rightarrow> (js_error + ToolResult) \<times> state" where
  "getAnalytics E st args =
     (let params = [(''metric'', js_str (metric args))]
                   @ append_if ''from_date'' (from_date args)
                   @ append_if ''to_date'' (to_date args)
      in reply E ''myntra_get_analytics'' args
           (makeApiRequest E st (seller_id args) ''GET''
              (''/analytics?'' @ params_toString params) None))"

definition handleMyntraOperation ::
  "env \<Rightarrow> state \<Rightarrow> string \<Rightarrow> tool_args \<Rightarrow> (js_error + ToolResult) \<times> state" where
  "handleMyntraOperation E st operation args =
     (if operation = ''myntra_list_products'' then listProducts E st args
      else if operation = ''myntra_get_product'' then getProduct E st args
      else if operation = ''myntra_create_product'' then createProduct E st args
      else if operation = ''myntra_update_product'' then updateProduct E st args
      else if operation = ''myntra_update_inventory'' then updateInventory E st args
      else if operation = ''myntra_list_orders'' then listOrders E st args
      else if operation = ''myntra_get_order'' then getOrder E st args
      else if operation = ''myntra_update_order_status'' then updateOrderStatus E st args
      else if operation = ''myntra_get_returns'' then getReturns E st args
      else if operation = ''myntra_process_return'' then processReturn E st args
      else if operation = ''myntra_get_analytics'' then getAnalytics E st args
      else (Inl (Error (''Unknown operation: '' @ operation)), st))"

section \<open>Tool dispatch gateway\<close>

text \<open>The names \<^verbatim>\<open>ListToolsRequestSchema\<close> advertises.\<close>

definition catalog :: "string list" where
  "catalog =
     [''myntra_authenticate'', ''myntra_status'', ''myntra_list_products'',
      ''myntra_get_product'', ''myntra_create_product'', ''myntra_update_product'',
      ''myntra_update_inventory'', ''myntra_list_orders'', ''myntra_get_order'',
      ''myntra_update_order_status'', ''myntra_get_returns'', ''myntra_process_return'',
      ''myntra_get_analytics'']"

definition seller_id_required :: ToolResult where
  "seller_id_required =
     \<lparr> content_text = ''Error: seller_id is required for all Myntra operations.'',
       isError = True \<rparr>"

definition not_authenticated :: ToolResult where
  "not_authenticated =
     \<lparr> content_text =
         ''Not authenticated with Myntra. Please authenticate first using myntra_authenticate.'',
       isError = True \<rparr>"

text \<open>
  The \<^verbatim>\<open>switch\<close> of the \<^verbatim>\<open>CallToolRequestSchema\<close> handler, inside its \<^verbatim>\<open>try\<close>:
  \<open>Inl\<close> is an error thrown there. \<open>arguments\<close> is \<^verbatim>\<open>request.params.arguments\<close>,
  which may be missing: \<open>args_seller_id\<close> is \<^verbatim>\<open>args?.seller_id\<close> and \<open>args_or_empty\<close> is
  \<^verbatim>\<open>args || {}\<close>.
\<close>

definition args_seller_id :: "tool_args option \<Rightarrow> string option" where
  "args_seller_id arguments = (case arguments of None \<Rightarrow> None | Some a \<Rightarrow> seller_id a)"

definition args_or_empty :: "tool_args option \<Rightarrow> tool_args" where
  "args_or_empty arguments = (case arguments of None \<Rightarrow> no_args | Some a \<Rightarrow> a)"

definition tool_switch ::
  "env \<Rightarrow> state \<Rightarrow> string \<Rightarrow> tool_args option \<Rightarrow> (js_error + ToolResult) \<times> state" where
  "tool_switch E st tool arguments =
     (let sellerId = args_seller_id arguments;
          args = args_or_empty arguments
      in if tool = ''myntra_authenticate'' then
           (let (r, st1) = handleAuthenticate E st args in (Inr r, st1))
         else if tool = ''myntra_status'' then
           (let (r, st1) = handleStatus E st sellerId in (Inr r, st1))
         else if \<not> truthy sellerId then (Inr seller_id_required, st)
         else
           (let (ok, st1) = checkAuthentication E st (js_str sellerId) in
            if \<not> ok then (Inr not_authenticated, st1)
            else handleMyntraOperation E st1 tool args))"

text \<open>
  The handler itself: its \<^verbatim>\<open>catch\<close> rethrows what the \<^verbatim>\<open>switch\<close> threw as an
  \<^verbatim>\<open>McpError\<close>. \<open>Inl\<close> is the error that leaves the handler.
\<close>

definition dispatch ::
  "env \<Rightarrow> state \<Rightarrow> string \<Rightarrow> tool_args option \<Rightarrow> (McpError + ToolResult) \<times> state" where
  "dispatch E st tool arguments =
     (case tool_switch E st tool arguments of
        (Inl e, st1) \<Rightarrow>
          (Inl (McpError InternalError (''Error executing '' @ tool @ '': '' @ message e)), st1)
      | (Inr r, st1) \<Rightarrow> (Inr r, st1))"

section \<open>HTTP authentication endpoints\<close>

text \<open>
  A reply of the Express routes: the status code and the JSON body, without its
  \<^verbatim>\<open>timestamp\<close> property.
\<close>

datatype http_reply = HttpReply nat "(string \<times> json) list"

text \<open>\<^verbatim>\<open>POST /auth/login\<close> with the three fields of the request body.\<close>

definition auth_login ::
  "env \<Rightarrow> state \<Rightarrow> string option \<Rightarrow> string option \<Rightarrow> string option \<Rightarrow> http_reply \<times> state" where
  "auth_login E st k apiKey apiSecret =
     (if \<not> truthy k \<or> \<not> truthy apiKey \<or> \<not> truthy apiSecret
      then (HttpReply 400
              [(''error'', JStr ''Missing required fields''),
               (''required'', JArr [JStr ''sellerId'', JStr ''apiKey'', JStr ''apiSecret''])], st)
      else
        (let sid = js_str k;
             (r, st1) = axios_post E st (myntraApiBase E @ ''/auth/token'')
                          (JObj [(''seller_id'', JStr sid),
                                 (''api_key'', JStr (js_str apiKey)),
                                 (''api_secret'', JStr (js_str apiSecret))])
         in case r of
              Response d \<Rightarrow>
                (let (now, st2) = Date_now E st1;
                     tokens = \<lparr> accessToken = access_token d,
                                refreshToken = refresh_token d,
                                expiresOn = expiry now (expires_in d),
                                sellerId = Some sid \<rparr>
                 in (HttpReply 200
                       (json_fields
                          [(''success'', Some (JBool True)),
                           (''message'', Some (JStr ''Authentication successful'')),
                           (''sellerId'', Some (JStr sid)),
                           (''expiresIn'', map_option JNum (expires_in d))]),
                     storeTokens E st2 sid tokens))
            | Failure rm m \<Rightarrow>
                (HttpReply 401
                   [(''error'', JStr ''Authentication failed''),
                    (''details'', JStr (error_detail rm m))], st1)))"

text \<open>\<^verbatim>\<open>GET /auth/status/:sellerId\<close>.\<close>

definition auth_status :: "env \<Rightarrow> state \<Rightarrow> string \<Rightarrow> http_reply \<times> state" where
  "auth_status E st sid =
     (let (ok, st1) = checkAuthentication E st sid in
      if ok then
        (let (tokens, st2) = getTokens E st1 (Some sid);
             (expiresIn, st3) =
               (case tokens of
                  None \<Rightarrow> (0, st2)
                | Some t \<Rightarrow>
                    (case expiresOn t of
                       None \<Rightarrow> (0, st2)
                     | Some e \<Rightarrow>
                         if e = 0 then (0, st2)
                         else (let (now, s) = Date_now E st2 in ((e - int now) div 1000, s))))
         in (HttpReply 200
               (json_fields
                  [(''authenticated'', Some (JBool True)),
                   (''sellerId'',
                      map_option JStr (case tokens of None \<Rightarrow> None | Some t \<Rightarrow> sellerId t)),
                   (''expiresIn'', Some (JNum expiresIn))]), st3))
      else (HttpReply 200 [(''authenticated'', JBool False)], st1))"

text \<open>\<^verbatim>\<open>POST /auth/logout/:sellerId\<close>.\<close>

definition auth_logout :: "env \<Rightarrow> state \<Rightarrow> string \<Rightarrow> http_reply \<times> state" where
  "auth_logout E st sid =
     (HttpReply 200
        [(''success'', JBool True), (''message'', JStr ''Logged out successfully'')],
      revokeTokens E st sid)"

section \<open>Notions used in the properties\<close>

text \<open>The two requests of the session manager, and the bearer credential of a request.\<close>

definition refresh_request :: "env \<Rightarrow> string \<Rightarrow> http_request" where
  "refresh_request E rt =
     \<lparr> req_method = ''POST'', req_url = myntraApiBase E @ ''/auth/refresh'', req_headers = [],
       req_data = Some (JObj [(''refresh_token'', JStr rt)]) \<rparr>"

definition token_request :: "env \<Rightarrow> string \<Rightarrow> string \<Rightarrow> string \<Rightarrow> http_request" where
  "token_request E sid apiKey apiSecret =
     \<lparr> req_method = ''POST'', req_url = myntraApiBase E @ ''/auth/token'', req_headers = [],
       req_data = Some (JObj [(''seller_id'', JStr sid), (''api_key'', JStr apiKey),
                              (''api_secret'', JStr apiSecret)]) \<rparr>"

definition is_token_request :: "env \<Rightarrow> http_request \<Rightarrow> bool" where
  "is_token_request E req \<longleftrightarrow> req_url req = myntraApiBase E @ ''/auth/token''"

definition bearer :: "http_request \<Rightarrow> string option" where
  "bearer req = map_of (req_headers req) ''Authorization''"

text \<open>The record a successful refresh stores, the clock being read in state \<open>st\<close>.\<close>

definition refreshed_tokens :: "env \<Rightarrow> state \<Rightarrow> string \<Rightarrow> string \<Rightarrow> token_response \<Rightarrow> SellerTokens" where
  "refreshed_tokens E st sid rt d =
     \<lparr> accessToken = access_token d,
       refreshToken = (if truthy (refresh_token d) then refresh_token d else Some rt),
       expiresOn = expiry (clock E (clock_reads st)) (expires_in d),
       sellerId = Some sid \<rparr>"

text \<open>
  The token store is reliable when Redis is not configured or none of its commands
  fails; what a read then returns for an account is \<open>stored\<close>.
\<close>

definition reliable :: "env \<Rightarrow> bool" where
  "reliable E \<longleftrightarrow> \<not> redis_enabled E \<or> (\<forall>k. \<not> redis_fails E k)"

definition stored :: "env \<Rightarrow> state \<Rightarrow> string \<Rightarrow> SellerTokens option" where
  "stored E st sid = (if redis_enabled E then redis_db st (redis_key sid) else sellerTokens st sid)"

text \<open>Every stored record names the account it is stored under.\<close>

definition store_inv :: "state \<Rightarrow> bool" where
  "store_inv st \<longleftrightarrow>
     (\<forall>sid t. sellerTokens st sid = Some t \<longrightarrow> sellerId t = Some sid) \<and>
     (\<forall>sid t. redis_db st (redis_key sid) = Some t \<longrightarrow> sellerId t = Some sid)"

definition init_state :: state where
  "init_state = \<lparr> sellerTokens = Map.empty, redis_db = Map.empty, redis_ops = 0,
                   clock_reads = 0, sent = [] \<rparr>"

text \<open>The states the server can be in: any sequence of tool calls and HTTP requests.\<close>

inductive reachable :: "env \<Rightarrow> state \<Rightarrow> bool" for E :: env where
  start: "reachable E init_state"
| tool_call: "reachable E st \<Longrightarrow> reachable E (snd (dispatch E st tool arguments))"
| login: "reachable E st \<Longrightarrow> reachable E (snd (auth_login E st k apiKey apiSecret))"
| status_check: "reachable E st \<Longrightarrow> reachable E (snd (auth_status E st sid))"
| logout: "reachable E st \<Longrightarrow> reachable E (snd (auth_logout E st sid))"

section \<open>Scenarios\<close>

text \<open>
  A stub environment: no Redis, a clock standing at 1000 ms, a remote that answers every
  token request with \<^verbatim>\<open>{access_token: "T1", refresh_token: "R1", expires_in: 3600}\<close> and
  every other request with an empty object.
\<close>

definition stub_response :: token_response where
  "stub_response =
     \<lparr> access_token = Some ''T1'', refresh_token = Some ''R1'', expires_in = Some 3600 \<rparr>"

definition stub_env :: env where
  "stub_env =
     \<lparr> myntraApiBase = ''https://api.myntra.com/seller'', redis_enabled = False,
       redis_fails = (\<lambda>k. False), clock = (\<lambda>k. 1000),
       auth_remote = (\<lambda>k req. Response stub_response),
       api_remote = (\<lambda>k req. Response (JObj [])),
       render = (\<lambda>tool args d. Inr ''ok''),
       render_status = (\<lambda>sid d. Inr ''ok'') \<rparr>"

text \<open>Account S1 with a session that is valid at the stub clock, in the in-process map.\<close>

definition session_S1 :: SellerTokens where
  "session_S1 =
     \<lparr> accessToken = Some ''T1'', refreshToken = Some ''R1'', expiresOn = Some 3601000,
       sellerId = Some ''S1'' \<rparr>"

definition authed_state :: state where
  "authed_state = init_state\<lparr>sellerTokens := [''S1'' \<mapsto> session_S1]\<rparr>"

text \<open>The same remote, answering every catalog request with a 404 that carries a message.\<close>

definition api_down_env :: env where
  "api_down_env =
     stub_env\<lparr>api_remote :=
       (\<lambda>k req. Failure (Some ''Order not found'') ''Request failed with status code 404'')\<rparr>"

text \<open>A remote that rejects every token and refresh request.\<close>

definition auth_down_env :: env where
  "auth_down_env =
     stub_env\<lparr>auth_remote :=
       (\<lambda>k req. Failure (Some ''Invalid credentials'') ''Request failed with status code 401'')\<rparr>"

text \<open>Account S1 with a session that expired at 500 ms and holds a refresh token.\<close>

definition stale_S1 :: SellerTokens where
  "stale_S1 =
     \<lparr> accessToken = Some ''T0'', refreshToken = Some ''R0'', expiresOn = Some 500,
       sellerId = Some ''S1'' \<rparr>"

definition stale_state :: state where
  "stale_state = init_state\<lparr>sellerTokens := [''S1'' \<mapsto> stale_S1]\<rparr>"

text \<open>The same record without its access token.\<close>

definition no_access_S1 :: SellerTokens where
  "no_access_S1 = stale_S1\<lparr>accessToken := None\<rparr>"

definition no_access_state :: state where
  "no_access_state = init_state\<lparr>sellerTokens := [''S1'' \<mapsto> no_access_S1]\<rparr>"

definition credentials_S1 :: tool_args where
  "credentials_S1 = no_args\<lparr>seller_id := Some ''S1'', api_key := Some ''k'', api_secret := Some ''s''\<rparr>"

text \<open>
  Redis configured: without faults, and with its first command failing and the later
  ones succeeding; and a state with the record of S1 in the database.
\<close>

definition redis_env :: env where
  "redis_env = stub_env\<lparr>redis_enabled := True\<rparr>"

definition redis_flaky_env :: env where
  "redis_flaky_env = redis_env\<lparr>redis_fails := (\<lambda>k. k = 0)\<rparr>"

definition redis_state :: state where
  "redis_state = init_state\<lparr>redis_db := [redis_key ''S1'' \<mapsto> session_S1]\<rparr>"

text \<open>
  A remote whose first answer is a failure and whose later answers are the stub's: a
  refresh token that is no longer accepted, then a successful request.
\<close>

definition relogin_env :: env where
  "relogin_env =
     stub_env\<lparr>auth_remote :=
       (\<lambda>k req. if k = 0 then Failure (Some ''Refresh token expired'')
                                 ''Request failed with status code 401''
                 else Response stub_response)\<rparr>"

text \<open>
  The same remote with Redis configured, the second Redis command failing, and the
  stale record of S1 in the database.
\<close>

definition redis_relogin_env :: env where
  "redis_relogin_env = relogin_env\<lparr>redis_enabled := True, redis_fails := (\<lambda>k. k = 1)\<rparr>"

definition redis_stale_state :: state where
  "redis_stale_state = init_state\<lparr>redis_db := [redis_key ''S1'' \<mapsto> stale_S1]\<rparr>"

text \<open>A remote whose token answers carry no access token.\<close>

definition tokenless_env :: env where
  "tokenless_env =
     stub_env\<lparr>auth_remote := (\<lambda>k req. Response (stub_response\<lparr>access_token := None\<rparr>))\<rparr>"

text \<open>Redis configured, its second command failing: the read before a write succeeds, the write fails.\<close>

definition setex_down_env :: env where
  "setex_down_env = redis_env\<lparr>redis_fails := (\<lambda>k. k = 1)\<rparr>"

section \<open>Basic facts\<close>

lemma truthy_simps [simp]: "truthy None = False" "truthy (Some s) = (s \<noteq> [])"
  by (simp_all add: truthy_def)

lemma js_str_Some [simp]: "js_str (Some s) = s"
  by (simp add: js_str_def)

text \<open>Unfolding everything, for evaluation at concrete inputs.\<close>

lemmas model_defs =
  dispatch_def tool_switch_def args_seller_id_def args_or_empty_def handleMyntraOperation_def
  handleAuthenticate_def handleStatus_def checkAuthentication_def makeApiRequest_def
  getTokens_def storeTokens_def revokeTokens_def map_get_def not_expired_def Date_now_def
  axios_post_def expiry_def reply_def error_detail_def

lemmas scenario_defs =
  stub_env_def stub_response_def init_state_def session_S1_def authed_state_def
  api_down_env_def auth_down_env_def stale_S1_def stale_state_def no_access_S1_def
  no_access_state_def credentials_S1_def redis_env_def redis_flaky_env_def redis_state_def
  relogin_env_def redis_relogin_env_def redis_stale_state_def tokenless_env_def
  setex_down_env_def no_args_def

lemma or_else_simps [simp]: "or_else None b = b" "or_else (Some s) b = (if s = [] then b else s)"
  by (simp_all add: or_else_def)

subsection \<open>What the primitives leave unchanged\<close>

lemma getTokens_snd:
  "snd (getTokens E st k) = (if redis_enabled E then st\<lparr>redis_ops := Suc (redis_ops st)\<rparr> else st)"
  by (simp add: getTokens_def)

lemma getTokens_frame [simp]:
  "sent (snd (getTokens E st k)) = sent st"
  "sellerTokens (snd (getTokens E st k)) = sellerTokens st"
  "redis_db (snd (getTokens E st k)) = redis_db st"
  "clock_reads (snd (getTokens E st k)) = clock_reads st"
  by (simp_all add: getTokens_snd)

lemma Date_now_frame [simp]:
  "fst (Date_now E st) = clock E (clock_reads st)"
  "sent (snd (Date_now E st)) = sent st"
  "sellerTokens (snd (Date_now E st)) = sellerTokens st"
  "redis_db (snd (Date_now E st)) = redis_db st"
  "redis_ops (snd (Date_now E st)) = redis_ops st"
  by (simp_all add: Date_now_def)

lemma not_expired_frame [simp]:
  "sent (snd (not_expired E st t)) = sent st"
  "sellerTokens (snd (not_expired E st t)) = sellerTokens st"
  "redis_db (snd (not_expired E st t)) = redis_db st"
  "redis_ops (snd (not_expired E st t)) = redis_ops st"
  by (simp_all add: not_expired_def case_prod_beta split: option.splits)

lemma axios_post_frame [simp]:
  "fst (axios_post E st u body) =
     auth_remote E (length (sent st))
       \<lparr> req_method = ''POST'', req_url = u, req_headers = [], req_data = Some body \<rparr>"
  "sent (snd (axios_post E st u body)) =
     sent st @ [\<lparr> req_method = ''POST'', req_url = u, req_headers = [], req_data = Some body \<rparr>]"
  "sellerTokens (snd (axios_post E st u body)) = sellerTokens st"
  "redis_db (snd (axios_post E st u body)) = redis_db st"
  "redis_ops (snd (axios_post E st u body)) = redis_ops st"
  "clock_reads (snd (axios_post E st u body)) = clock_reads st"
  by (simp_all add: axios_post_def Let_def)

lemma storeTokens_frame [simp]:
  "sent (storeTokens E st sid t) = sent st"
  "clock_reads (storeTokens E st sid t) = clock_reads st"
  by (simp_all add: storeTokens_def)

lemma revokeTokens_frame [simp]:
  "sent (revokeTokens E st sid) = sent st"
  "clock_reads (revokeTokens E st sid) = clock_reads st"
  "sellerTokens (revokeTokens E st sid) = (sellerTokens st)(sid := None)"
  by (simp_all add: revokeTokens_def Let_def)

lemma storeTokens_stores:
  "(sellerTokens (storeTokens E st sid t) = (sellerTokens st)(sid \<mapsto> t) \<and>
      redis_db (storeTokens E st sid t) = redis_db st) \<or>
   (sellerTokens (storeTokens E st sid t) = sellerTokens st \<and>
      redis_db (storeTokens E st sid t) = (redis_db st)(redis_key sid \<mapsto> t))"
  by (simp add: storeTokens_def)


subsection \<open>The paths of the authentication check\<close>

lemma check_absent:
  assumes "fst (getTokens E st (Some sid)) = None"
  shows "checkAuthentication E st sid = (False, snd (getTokens E st (Some sid)))"
  using assms by (simp add: checkAuthentication_def case_prod_beta)

lemma check_no_access:
  assumes "fst (getTokens E st (Some sid)) = Some t" and "\<not> truthy (accessToken t)"
  shows "checkAuthentication E st sid = (False, snd (getTokens E st (Some sid)))"
  using assms by (simp add: checkAuthentication_def case_prod_beta)

lemma check_valid:
  assumes "fst (getTokens E st (Some sid)) = Some t" and "truthy (accessToken t)"
    and "expiresOn t = Some e"
    and "int (clock E (clock_reads st)) < e"
  shows "checkAuthentication E st sid =
           (True, (snd (getTokens E st (Some sid)))\<lparr>clock_reads := Suc (clock_reads st)\<rparr>)"
  using assms
  by (auto simp: checkAuthentication_def case_prod_beta not_expired_def Date_now_def)

lemma check_cases [case_names absent no_access valid no_refresh refreshed revoked]:
  assumes "fst (getTokens E st (Some sid)) = None \<Longrightarrow>
             checkAuthentication E st sid = (False, snd (getTokens E st (Some sid))) \<Longrightarrow> P"
    and "\<And>t. fst (getTokens E st (Some sid)) = Some t \<Longrightarrow> \<not> truthy (accessToken t) \<Longrightarrow>
             checkAuthentication E st sid = (False, snd (getTokens E st (Some sid))) \<Longrightarrow> P"
    and "\<And>t. fst (getTokens E st (Some sid)) = Some t \<Longrightarrow> truthy (accessToken t) \<Longrightarrow>
             fst (not_expired E (snd (getTokens E st (Some sid))) t) \<Longrightarrow>
             checkAuthentication E st sid =
               (True, snd (not_expired E (snd (getTokens E st (Some sid))) t)) \<Longrightarrow> P"
    and "\<And>t. fst (getTokens E st (Some sid)) = Some t \<Longrightarrow> truthy (accessToken t) \<Longrightarrow>
             \<not> fst (not_expired E (snd (getTokens E st (Some sid))) t) \<Longrightarrow>
             \<not> truthy (refreshToken t) \<Longrightarrow>
             checkAuthentication E st sid =
               (False, snd (not_expired E (snd (getTokens E st (Some sid))) t)) \<Longrightarrow> P"
    and "\<And>t rt d. fst (getTokens E st (Some sid)) = Some t \<Longrightarrow> truthy (accessToken t) \<Longrightarrow>
             \<not> fst (not_expired E (snd (getTokens E st (Some sid))) t) \<Longrightarrow>
             refreshToken t = Some rt \<Longrightarrow> rt \<noteq> [] \<Longrightarrow>
             auth_remote E (length (sent st)) (refresh_request E rt) = Response d \<Longrightarrow>
             checkAuthentication E st sid =
               (True,
                storeTokens E
                  (snd (Date_now E
                     (snd (axios_post E (snd (not_expired E (snd (getTokens E st (Some sid))) t))
                        (myntraApiBase E @ ''/auth/refresh'') (JObj [(''refresh_token'', JStr rt)])))))
                  sid
                  (refreshed_tokens E (snd (not_expired E (snd (getTokens E st (Some sid))) t)) sid rt d))
             \<Longrightarrow> P"
    and "\<And>t rt rm m. fst (getTokens E st (Some sid)) = Some t \<Longrightarrow> truthy (accessToken t) \<Longrightarrow>
             \<not> fst (not_expired E (snd (getTokens E st (Some sid))) t) \<Longrightarrow>
             refreshToken t = Some rt \<Longrightarrow> rt \<noteq> [] \<Longrightarrow>
             auth_remote E (length (sent st)) (refresh_request E rt) = Failure rm m \<Longrightarrow>
             checkAuthentication E st sid =
               (False,
                revokeTokens E
                  (snd (axios_post E (snd (not_expired E (snd (getTokens E st (Some sid))) t))
                     (myntraApiBase E @ ''/auth/refresh'') (JObj [(''refresh_token'', JStr rt)])))
                  sid)
             \<Longrightarrow> P"
  shows P
proof (cases "fst (getTokens E st (Some sid))")
  case None
  then show ?thesis
    using assms(1) by (simp add: checkAuthentication_def case_prod_beta)
next
  case (Some t)
  note read = this
  show ?thesis
  proof (cases "truthy (accessToken t)")
    case False
    then show ?thesis
      using assms(2) read by (simp add: checkAuthentication_def case_prod_beta)
  next
    case True
    note access = this
    show ?thesis
    proof (cases "fst (not_expired E (snd (getTokens E st (Some sid))) t)")
      case True
      then show ?thesis
        using assms(3) [OF read access] read access
        by (simp add: checkAuthentication_def case_prod_beta)
    next
      case False
      note stale = this
      show ?thesis
      proof (cases "refreshToken t")
        case None
        then show ?thesis
          using assms(4) [OF read access stale] read access stale
          by (simp add: checkAuthentication_def case_prod_beta)
      next
        case (Some rt)
        note rt = this
        show ?thesis
        proof (cases "rt = []")
          case True
          then show ?thesis
            using assms(4) [OF read access stale] read access stale rt
            by (simp add: checkAuthentication_def case_prod_beta)
        next
          case False
          note nonempty = this
          show ?thesis
          proof (cases "auth_remote E (length (sent st)) (refresh_request E rt)")
            case (Response d)
            then show ?thesis
              using assms(5) [OF read access stale rt nonempty Response] read access stale rt nonempty
              by (simp add: checkAuthentication_def case_prod_beta refresh_request_def
                  refreshed_tokens_def Let_def)
          next
            case (Failure rm m)
            then show ?thesis
              using assms(6) [OF read access stale rt nonempty Failure] read access stale rt nonempty
              by (simp add: checkAuthentication_def case_prod_beta refresh_request_def)
          qed
        qed
      qed
    qed
  qed
qed

lemma check_sent:
  "sent (snd (checkAuthentication E st sid)) = sent st \<or>
   (\<exists>rt. sent (snd (checkAuthentication E st sid)) = sent st @ [refresh_request E rt])"
  by (cases rule: check_cases [of E st sid]) (simp_all add: refresh_request_def)


subsection \<open>What the catalog tools leave unchanged\<close>

lemma makeApiRequest_stores [simp]:
  "sellerTokens (snd (makeApiRequest E st k meth endpoint body)) = sellerTokens st"
  "redis_db (snd (makeApiRequest E st k meth endpoint body)) = redis_db st"
  by (simp_all add: makeApiRequest_def case_prod_beta Let_def split: option.splits outcome.splits)

lemma reply_snd [simp]: "snd (reply E tool args rs) = snd rs"
  by (cases rs) (simp add: reply_def split: sum.splits)

lemma handleMyntraOperation_stores [simp]:
  "sellerTokens (snd (handleMyntraOperation E st tool args)) = sellerTokens st"
  "redis_db (snd (handleMyntraOperation E st tool args)) = redis_db st"
  by (simp_all add: handleMyntraOperation_def listProducts_def getProduct_def createProduct_def
      updateProduct_def updateInventory_def listOrders_def getOrder_def updateOrderStatus_def
      getReturns_def processReturn_def getAnalytics_def Let_def)

subsection \<open>Reading back, and sending with the token read\<close>

lemma revoke_then_read:
  assumes "\<not> redis_enabled E \<or> \<not> redis_fails E (redis_ops st)"
  shows "fst (getTokens E (revokeTokens E st sid) (Some sid)) = None"
  using assms by (auto simp: getTokens_def revokeTokens_def map_get_def Let_def)

lemma not_expired_iff:
  "fst (not_expired E st t) \<longleftrightarrow>
     (\<exists>e. expiresOn t = Some e \<and> int (clock E (clock_reads st)) < e)"
  by (auto simp: not_expired_def Date_now_def split: option.splits)

lemma not_expired_reads:
  "clock_reads st' = clock_reads st \<Longrightarrow>
     clock_reads (snd (not_expired E st' t)) = clock_reads (snd (not_expired E st t))"
  by (simp add: not_expired_def Date_now_def split: option.splits)

lemma getTokens_reliable:
  "reliable E \<Longrightarrow> fst (getTokens E st (Some sid)) = stored E st sid"
  by (auto simp: getTokens_def reliable_def stored_def map_get_def)

lemma stored_storeTokens:
  "reliable E \<Longrightarrow> stored E (storeTokens E st sid t) sid = Some t"
  by (auto simp: reliable_def stored_def storeTokens_def)

lemma stored_revokeTokens:
  "reliable E \<Longrightarrow> stored E (revokeTokens E st sid) sid = None"
  by (auto simp: reliable_def stored_def revokeTokens_def Let_def)

lemma makeApiRequest_sent:
  assumes "fst (getTokens E st k) = Some t" and "accessToken t = Some tok" and "tok \<noteq> []"
  shows "sent (snd (makeApiRequest E st k meth endpoint body)) =
           sent st @ [\<lparr> req_method = meth, req_url = myntraApiBase E @ endpoint,
                        req_headers = [(''Authorization'', ''Bearer '' @ tok),
                                       (''Content-Type'', ''application/json'')],
                        req_data = body \<rparr>]"
  using assms
  by (simp add: makeApiRequest_def case_prod_beta Let_def split: outcome.splits)

subsection \<open>Behind the gate\<close>

lemma stored_frame:
  "sellerTokens st' = sellerTokens st \<Longrightarrow> redis_db st' = redis_db st \<Longrightarrow>
     stored E st' sid = stored E st sid"
  by (simp add: stored_def)

lemma bearer_simp [simp]:
  "bearer \<lparr> req_method = meth, req_url = u,
            req_headers = [(''Authorization'', v), (''Content-Type'', ''application/json'')],
            req_data = body \<rparr> = Some v"
  by (simp add: bearer_def)

text \<open>Behind a valid session a catalog tool sends one request, with the stored token.\<close>

lemma gate_passed:
  assumes "reliable E" and "stored E st sid = Some t" and "accessToken t = Some tok"
    and "tok \<noteq> []" and "expiresOn t = Some e" and "int (clock E (clock_reads st)) < e"
    and "sid \<noteq> []" and "args_seller_id arguments = Some sid"
    and "tool \<noteq> ''myntra_authenticate''" and "tool \<noteq> ''myntra_status''"
  shows "tool_switch E st tool arguments =
           handleMyntraOperation E
             ((snd (getTokens E st (Some sid)))\<lparr>clock_reads := Suc (clock_reads st)\<rparr>)
             tool (args_or_empty arguments)"
proof -
  have "fst (getTokens E st (Some sid)) = Some t"
    using assms(1,2) by (simp add: getTokens_reliable)
  then have "checkAuthentication E st sid =
      (True, (snd (getTokens E st (Some sid)))\<lparr>clock_reads := Suc (clock_reads st)\<rparr>)"
    using assms(3-6) by (intro check_valid) simp_all
  then show ?thesis
    using assms(7-10) by (simp add: tool_switch_def)
qed

lemma listProducts_sent:
  assumes "fst (getTokens E st (Some sid)) = Some t" and "accessToken t = Some tok"
    and "tok \<noteq> []" and "seller_id a = Some sid"
  shows "sent (snd (listProducts E st a)) =
           sent st @ [\<lparr> req_method = ''GET'',
             req_url = myntraApiBase E @ ''/products?'' @
               params_toString
                 (append_status (default_str (status a) ''all'') @ append_if ''category'' (category a) @
                  [(''limit'', number_toString (default_num (limit a) 50)),
                   (''offset'', number_toString (default_num (offset a) 0))]),
             req_headers = [(''Authorization'', ''Bearer '' @ tok),
                            (''Content-Type'', ''application/json'')],
             req_data = None \<rparr>]"
  using assms by (simp add: listProducts_def Let_def makeApiRequest_sent)

lemma default_query: "params_toString [(''limit'', number_toString 50), (''offset'', number_toString 0)] =
    ''limit=50&offset=0''"
  by (simp add: params_toString_def urlencode_def urlencode_byte_def number_toString_def
      digits.simps digit_char_def)

lemma catalog_cases:
  assumes "tool \<in> set catalog" and "tool \<noteq> ''myntra_authenticate''"
    and "tool \<noteq> ''myntra_status''"
  shows "tool \<in> {''myntra_list_products'', ''myntra_get_product'', ''myntra_create_product'',
           ''myntra_update_product'', ''myntra_update_inventory'', ''myntra_list_orders'',
           ''myntra_get_order'', ''myntra_update_order_status'', ''myntra_get_returns'',
           ''myntra_process_return'', ''myntra_get_analytics''}"
  using assms by (simp add: catalog_def)

lemma catalog_tool_sent:
  assumes "fst (getTokens E st (Some sid)) = Some t" and "accessToken t = Some tok"
    and "tok \<noteq> []" and "seller_id a = Some sid"
    and "tool \<in> set catalog" and "tool \<noteq> ''myntra_authenticate''"
    and "tool \<noteq> ''myntra_status''"
  shows "\<exists>req. sent (snd (handleMyntraOperation E st tool a)) = sent st @ [req] \<and>
               bearer req = Some (''Bearer '' @ tok)"
proof -
  define b where "b = ''Bearer '' @ tok"
  have one: "\<exists>req. sent (snd (makeApiRequest E st (seller_id a) meth endpoint body)) =
                 sent st @ [req] \<and> bearer req = Some b" for meth endpoint body
    using makeApiRequest_sent [OF assms(1-3), of meth endpoint body] assms(4)
    by (simp add: b_def)
  have "tool \<in> {''myntra_list_products'', ''myntra_get_product'', ''myntra_create_product'',
           ''myntra_update_product'', ''myntra_update_inventory'', ''myntra_list_orders'',
           ''myntra_get_order'', ''myntra_update_order_status'', ''myntra_get_returns'',
           ''myntra_process_return'', ''myntra_get_analytics''}"
    using assms(5-7) by (rule catalog_cases)
  then have "\<exists>req. sent (snd (handleMyntraOperation E st tool a)) = sent st @ [req] \<and>
               bearer req = Some b"
    by (elim insertE emptyE)
      (simp_all add: handleMyntraOperation_def listProducts_def getProduct_def createProduct_def
        updateProduct_def updateInventory_def listOrders_def getOrder_def updateOrderStatus_def
        getReturns_def processReturn_def getAnalytics_def Let_def one)
  then show ?thesis
    by (simp only: b_def)
qed

subsection \<open>The requests of an authentication\<close>

lemma refresh_is_no_token_request [simp]: "\<not> is_token_request E (refresh_request E rt)"
  by (simp add: is_token_request_def refresh_request_def)

lemma token_request_is_one [simp]: "is_token_request E (token_request E sid k s)"
  by (simp add: is_token_request_def token_request_def)

lemma check_token_requests:
  "filter (is_token_request E) (sent (snd (checkAuthentication E st sid))) =
   filter (is_token_request E) (sent st)"
  using check_sent [of E st sid] by auto

lemma handleAuthenticate_cases:
  "handleAuthenticate E st args = (missing_credentials, st) \<or>
   (fst (checkAuthentication E st (js_str (seller_id args))) \<and>
    handleAuthenticate E st args =
      (already_authenticated (js_str (seller_id args)),
       snd (checkAuthentication E st (js_str (seller_id args))))) \<or>
   (\<exists>n. fst (handleAuthenticate E st args) = authenticated (js_str (seller_id args)) n \<and>
        sent (snd (handleAuthenticate E st args)) =
          sent (snd (checkAuthentication E st (js_str (seller_id args)))) @
            [token_request E (js_str (seller_id args)) (js_str (api_key args))
               (js_str (api_secret args))]) \<or>
   (isError (fst (handleAuthenticate E st args)) \<and>
    sent (snd (handleAuthenticate E st args)) =
      sent (snd (checkAuthentication E st (js_str (seller_id args)))) @
        [token_request E (js_str (seller_id args)) (js_str (api_key args))
           (js_str (api_secret args))])"
proof -
  let ?sid = "js_str (seller_id args)"
  let ?req = "token_request E ?sid (js_str (api_key args)) (js_str (api_secret args))"
  let ?st1 = "snd (checkAuthentication E st ?sid)"
  consider (missing) "\<not> truthy (seller_id args) \<or> \<not> truthy (api_key args) \<or> \<not> truthy (api_secret args)"
    | (already) "truthy (seller_id args)" "truthy (api_key args)" "truthy (api_secret args)"
        "fst (checkAuthentication E st ?sid)"
    | (issued) d where "truthy (seller_id args)" "truthy (api_key args)" "truthy (api_secret args)"
        "\<not> fst (checkAuthentication E st ?sid)"
        "auth_remote E (length (sent ?st1)) ?req = Response d"
    | (failed) rm m where "truthy (seller_id args)" "truthy (api_key args)" "truthy (api_secret args)"
        "\<not> fst (checkAuthentication E st ?sid)"
        "auth_remote E (length (sent ?st1)) ?req = Failure rm m"
    by (cases "auth_remote E (length (sent ?st1)) ?req") blast+
  then show ?thesis
  proof cases
    case missing
    then have "handleAuthenticate E st args = (missing_credentials, st)"
      by (auto simp: handleAuthenticate_def)
    then show ?thesis by simp
  next
    case already
    then have "handleAuthenticate E st args = (already_authenticated ?sid, ?st1)"
      by (simp add: handleAuthenticate_def case_prod_beta Let_def)
    then show ?thesis using already(4) by simp
  next
    case (issued d)
    then have "fst (handleAuthenticate E st args) = authenticated ?sid (expires_in d)"
      and "sent (snd (handleAuthenticate E st args)) = sent ?st1 @ [?req]"
      by (simp_all add: handleAuthenticate_def case_prod_beta Let_def token_request_def)
    then show ?thesis
      by - (rule disjI2, rule disjI2, rule disjI1, rule exI [of _ "expires_in d"], simp)
  next
    case (failed rm m)
    then have "isError (fst (handleAuthenticate E st args))"
      and "sent (snd (handleAuthenticate E st args)) = sent ?st1 @ [?req]"
      by (simp_all add: handleAuthenticate_def case_prod_beta Let_def token_request_def
          authentication_failed_def)
    then show ?thesis by simp
  qed
qed

lemma handleAuthenticate_token_requests:
  "length (filter (is_token_request E) (sent (snd (handleAuthenticate E st args)))) \<le>
   Suc (length (filter (is_token_request E) (sent st)))"
  using handleAuthenticate_cases [of E st args]
    check_token_requests [of E st "js_str (seller_id args)"]
  by (elim disjE exE conjE) simp_all

lemma handleAuthenticate_sent:
  "length (sent (snd (handleAuthenticate E st args))) \<le> Suc (length (sent st)) \<or>
   (\<exists>rt. sent (snd (handleAuthenticate E st args)) =
      sent st @ [refresh_request E rt,
                 token_request E (js_str (seller_id args)) (js_str (api_key args))
                   (js_str (api_secret args))])"
  using handleAuthenticate_cases [of E st args] check_sent [of E st "js_str (seller_id args)"]
  by (elim disjE exE conjE) auto

lemma handleAuthenticate_reports:
  "\<not> isError (fst (handleAuthenticate E st args)) \<Longrightarrow>
     fst (handleAuthenticate E st args) = already_authenticated (js_str (seller_id args)) \<or>
     (\<exists>n. fst (handleAuthenticate E st args) = authenticated (js_str (seller_id args)) n)"
  using handleAuthenticate_cases [of E st args]
  by (elim disjE exE conjE) (auto simp: missing_credentials_def)

subsection \<open>The invariant of the stores\<close>

lemma redis_key_inject [simp]: "redis_key a = redis_key b \<longleftrightarrow> a = b"
  by (simp add: redis_key_def)

lemma store_inv_kept:
  "store_inv st \<Longrightarrow> sellerTokens st' = sellerTokens st \<Longrightarrow> redis_db st' = redis_db st \<Longrightarrow>
     store_inv st'"
  by (simp add: store_inv_def)

lemma store_inv_storeTokens:
  "store_inv st \<Longrightarrow> sellerId t = Some sid \<Longrightarrow> store_inv (storeTokens E st sid t)"
  by (simp add: store_inv_def storeTokens_def)

lemma store_inv_revokeTokens:
  "store_inv st \<Longrightarrow> store_inv (revokeTokens E st sid)"
  by (simp add: store_inv_def revokeTokens_def Let_def)

lemma store_inv_check:
  assumes "store_inv st"
  shows "store_inv (snd (checkAuthentication E st sid))"
proof (cases rule: check_cases [of E st sid])
  case absent
  then show ?thesis by (simp add: store_inv_kept [OF assms])
next
  case (no_access t)
  then show ?thesis by (simp add: store_inv_kept [OF assms])
next
  case (valid t)
  then show ?thesis by (simp add: store_inv_kept [OF assms])
next
  case (no_refresh t)
  then show ?thesis by (simp add: store_inv_kept [OF assms])
next
  case (refreshed t rt d)
  have "store_inv (snd (Date_now E
          (snd (axios_post E (snd (not_expired E (snd (getTokens E st (Some sid))) t))
             (myntraApiBase E @ ''/auth/refresh'') (JObj [(''refresh_token'', JStr rt)])))))"
    by (rule store_inv_kept [OF assms]) simp_all
  then show ?thesis
    using refreshed by (simp add: store_inv_storeTokens refreshed_tokens_def)
next
  case (revoked t rt rm m)
  have "store_inv (snd (axios_post E (snd (not_expired E (snd (getTokens E st (Some sid))) t))
             (myntraApiBase E @ ''/auth/refresh'') (JObj [(''refresh_token'', JStr rt)])))"
    by (rule store_inv_kept [OF assms]) simp_all
  then show ?thesis
    using revoked by (simp add: store_inv_revokeTokens)
qed

lemma store_inv_handleAuthenticate:
  assumes "store_inv st"
  shows "store_inv (snd (handleAuthenticate E st args))"
proof -
  let ?sid = "js_str (seller_id args)"
  let ?st1 = "snd (checkAuthentication E st ?sid)"
  have one: "store_inv ?st1"
    using assms by (rule store_inv_check)
  have two: "store_inv (snd (axios_post E ?st1 u body))" for u body
    by (rule store_inv_kept [OF one]) simp_all
  have three: "store_inv (snd (Date_now E (snd (axios_post E ?st1 u body))))" for u body
    by (rule store_inv_kept [OF one]) simp_all
  show ?thesis
    using assms one two three
    by (simp add: handleAuthenticate_def case_prod_beta Let_def store_inv_storeTokens
        split: outcome.splits)
qed

lemma store_inv_handleStatus:
  assumes "store_inv st"
  shows "store_inv (snd (handleStatus E st k))"
proof -
  let ?st1 = "snd (checkAuthentication E st (js_str k))"
  have one: "store_inv ?st1"
    using assms by (rule store_inv_check)
  have two: "store_inv (snd (makeApiRequest E ?st1 k meth endpoint body))" for meth endpoint body
    by (rule store_inv_kept [OF one]) simp_all
  show ?thesis
    using assms one two
    by (simp add: handleStatus_def case_prod_beta Let_def split: sum.splits)
qed

lemma store_inv_dispatch:
  assumes "store_inv st"
  shows "store_inv (snd (dispatch E st tool arguments))"
proof -
  let ?st1 = "snd (checkAuthentication E st (js_str (args_seller_id arguments)))"
  have one: "store_inv ?st1"
    using assms by (rule store_inv_check)
  have two: "store_inv (snd (handleMyntraOperation E ?st1 tool args))" for args
    by (rule store_inv_kept [OF one]) simp_all
  have "store_inv (snd (tool_switch E st tool arguments))"
    using assms one two store_inv_handleAuthenticate [OF assms] store_inv_handleStatus [OF assms]
    by (simp add: tool_switch_def case_prod_beta Let_def)
  moreover have "snd (dispatch E st tool arguments) = snd (tool_switch E st tool arguments)"
    by (simp add: dispatch_def split: prod.splits sum.splits)
  ultimately show ?thesis by simp
qed

lemma store_inv_auth_login:
  assumes "store_inv st"
  shows "store_inv (snd (auth_login E st k apiKey apiSecret))"
proof -
  have one: "store_inv (snd (axios_post E st u body))" for u body
    by (rule store_inv_kept [OF assms]) simp_all
  have two: "store_inv (snd (Date_now E (snd (axios_post E st u body))))" for u body
    by (rule store_inv_kept [OF assms]) simp_all
  show ?thesis
    using assms one two
    by (simp add: auth_login_def case_prod_beta Let_def store_inv_storeTokens
        split: outcome.splits)
qed

lemma store_inv_auth_status:
  assumes "store_inv st"
  shows "store_inv (snd (auth_status E st sid))"
proof -
  let ?st1 = "snd (checkAuthentication E st sid)"
  have one: "store_inv ?st1"
    using assms by (rule store_inv_check)
  show ?thesis
    by (rule store_inv_kept [OF one])
      (simp_all add: auth_status_def case_prod_beta Let_def split: option.splits)
qed

lemma store_inv_auth_logout:
  "store_inv st \<Longrightarrow> store_inv (snd (auth_logout E st sid))"
  by (simp add: auth_logout_def store_inv_revokeTokens)

lemma store_inv_reachable:
  "reachable E st \<Longrightarrow> store_inv st"
proof (induction rule: reachable.induct)
  case start
  show ?case by (simp add: store_inv_def init_state_def)
qed (simp_all add: store_inv_dispatch store_inv_auth_login store_inv_auth_status
       store_inv_auth_logout)

section \<open>A call without an account identifier\<close>

text \<open>
  C9. For every tool other than \<^verbatim>\<open>myntra_authenticate\<close> and \<^verbatim>\<open>myntra_status\<close>, a call
  whose arguments lack \<^verbatim>\<open>seller_id\<close> (or that has no arguments object at all) returns
  the error reply with the validation message, and the state is exactly what it was: no
  request is sent, no Redis command is issued, the clock is not read and no record of the
  token store is read or changed.
\<close>

theorem dispatch_missing_seller_id:
  assumes "tool \<noteq> ''myntra_authenticate''" and "tool \<noteq> ''myntra_status''"
    and "args_seller_id arguments = None"
  shows "dispatch E st tool arguments =
           (Inr \<lparr> content_text = ''Error: seller_id is required for all Myntra operations.'',
                  isError = True \<rparr>, st)"
  using assms by (simp add: dispatch_def tool_switch_def seller_id_required_def)

theorem dispatch_missing_seller_id_witness:
  "dispatch stub_env init_state ''myntra_get_order'' (Some no_args) =
     (Inr \<lparr> content_text = ''Error: seller_id is required for all Myntra operations.'',
            isError = True \<rparr>, init_state)"
  using dispatch_missing_seller_id [of "''myntra_get_order''" "Some no_args" stub_env init_state]
  by (simp add: args_seller_id_def no_args_def)

text \<open>
  C10. For every tool name (those of the catalog among them) and every arguments
  object, a call with \<^verbatim>\<open>seller_id\<close> equal to the empty string gives exactly what the same
  call without \<^verbatim>\<open>seller_id\<close> gives: an error reply, with the state untouched, hence
  without a request, an authentication check or an access to the token store.
\<close>

theorem empty_seller_id_as_absent:
  "dispatch E st tool (Some (a\<lparr>seller_id := Some ''''\<rparr>)) =
     dispatch E st tool (Some (a\<lparr>seller_id := None\<rparr>)) \<and>
   snd (dispatch E st tool (Some (a\<lparr>seller_id := Some ''''\<rparr>))) = st \<and>
   (\<exists>r. fst (dispatch E st tool (Some (a\<lparr>seller_id := Some ''''\<rparr>))) = Inr r \<and> isError r)"
  by (simp add: dispatch_def tool_switch_def args_seller_id_def args_or_empty_def Let_def
      handleAuthenticate_def handleStatus_def seller_id_required_def missing_credentials_def)

section \<open>An account that was never authenticated\<close>

text \<open>
  C4, amended. For every account with no record in the in-process map nor in Redis, the
  authentication check returns false, sends nothing and leaves both stores as they are;
  and for an account identifier that is not the empty string, every tool other than
  \<^verbatim>\<open>myntra_authenticate\<close> and \<^verbatim>\<open>myntra_status\<close> returns the error reply that directs the
  caller to authenticate, the state being the one the check left: the handler of the tool
  has not run. With the empty string as identifier the reply is the validation message
  instead.
\<close>

theorem never_authenticated:
  assumes "sellerTokens st sid = None" and "redis_db st (redis_key sid) = None"
  shows "\<not> fst (checkAuthentication E st sid) \<and>
         sent (snd (checkAuthentication E st sid)) = sent st \<and>
         sellerTokens (snd (checkAuthentication E st sid)) = sellerTokens st \<and>
         redis_db (snd (checkAuthentication E st sid)) = redis_db st \<and>
         (sid \<noteq> [] \<and> tool \<noteq> ''myntra_authenticate'' \<and> tool \<noteq> ''myntra_status'' \<and>
          args_seller_id arguments = Some sid \<longrightarrow>
            dispatch E st tool arguments =
              (Inr \<lparr> content_text =
                  ''Not authenticated with Myntra. Please authenticate first using myntra_authenticate.'',
                  isError = True \<rparr>,
               snd (checkAuthentication E st sid)))"
proof -
  have "fst (getTokens E st (Some sid)) = None"
    using assms by (simp add: getTokens_def map_get_def)
  then have check: "checkAuthentication E st sid = (False, snd (getTokens E st (Some sid)))"
    by (rule check_absent)
  then show ?thesis
    by (simp add: dispatch_def tool_switch_def not_authenticated_def)
qed

theorem never_authenticated_witness:
  "\<not> fst (checkAuthentication stub_env init_state ''S1'') \<and>
   dispatch stub_env init_state ''myntra_get_order'' (Some (no_args\<lparr>seller_id := Some ''S1''\<rparr>)) =
     (Inr \<lparr> content_text =
         ''Not authenticated with Myntra. Please authenticate first using myntra_authenticate.'',
         isError = True \<rparr>, init_state)"
proof -
  have a: "sellerTokens init_state ''S1'' = None" "redis_db init_state (redis_key ''S1'') = None"
    by (simp_all add: init_state_def)
  have b: "snd (checkAuthentication stub_env init_state ''S1'') = init_state"
    using check_absent [of stub_env init_state "''S1''"] a
    by (simp add: getTokens_def map_get_def stub_env_def)
  show ?thesis
    using never_authenticated [OF a, of stub_env "''myntra_get_order''"
        "Some (no_args\<lparr>seller_id := Some ''S1''\<rparr>)"] b
    by (simp add: args_seller_id_def)
qed

theorem never_authenticated_counterexample:
  "sellerTokens init_state '''' = None \<and> redis_db init_state (redis_key '''') = None \<and>
   dispatch stub_env init_state ''myntra_get_order'' (Some (no_args\<lparr>seller_id := Some ''''\<rparr>)) =
     (Inr \<lparr> content_text = ''Error: seller_id is required for all Myntra operations.'',
            isError = True \<rparr>, init_state)"
  by (simp add: init_state_def dispatch_def tool_switch_def args_seller_id_def
      seller_id_required_def)

section \<open>What a tool call can yield\<close>

text \<open>
  C1, amended. For every tool name and every arguments object, a tool call either returns
  a structured reply, or the tool is neither \<^verbatim>\<open>myntra_authenticate\<close> nor \<^verbatim>\<open>myntra_status\<close>,
  its account passed the authentication check, its handler threw an error \<open>e\<close>, and the
  call throws \<^verbatim>\<open>McpError(InternalError, "Error executing <tool>: <e.message>")\<close>.
  Conversely, every error a handler throws behind the gate leaves the call in exactly
  that form. So an error of a handler is caught, but it is rethrown as an \<^verbatim>\<open>McpError\<close>
  that carries its message, not returned as an error reply.
\<close>

theorem dispatch_outcome:
  "((\<exists>r. fst (dispatch E st tool arguments) = Inr r) \<or>
    (\<exists>e st1. tool \<noteq> ''myntra_authenticate'' \<and> tool \<noteq> ''myntra_status'' \<and>
       truthy (args_seller_id arguments) \<and>
       checkAuthentication E st (js_str (args_seller_id arguments)) = (True, st1) \<and>
       fst (handleMyntraOperation E st1 tool (args_or_empty arguments)) = Inl e \<and>
       fst (dispatch E st tool arguments) =
         Inl (McpError InternalError (''Error executing '' @ tool @ '': '' @ message e)))) \<and>
   (\<forall>e st1 st2. tool \<noteq> ''myntra_authenticate'' \<longrightarrow> tool \<noteq> ''myntra_status'' \<longrightarrow>
       truthy (args_seller_id arguments) \<longrightarrow>
       checkAuthentication E st (js_str (args_seller_id arguments)) = (True, st1) \<longrightarrow>
       handleMyntraOperation E st1 tool (args_or_empty arguments) = (Inl e, st2) \<longrightarrow>
       dispatch E st tool arguments =
         (Inl (McpError InternalError (''Error executing '' @ tool @ '': '' @ message e)), st2))"
proof (intro conjI allI impI)
  show "(\<exists>r. fst (dispatch E st tool arguments) = Inr r) \<or>
    (\<exists>e st1. tool \<noteq> ''myntra_authenticate'' \<and> tool \<noteq> ''myntra_status'' \<and>
       truthy (args_seller_id arguments) \<and>
       checkAuthentication E st (js_str (args_seller_id arguments)) = (True, st1) \<and>
       fst (handleMyntraOperation E st1 tool (args_or_empty arguments)) = Inl e \<and>
       fst (dispatch E st tool arguments) =
         Inl (McpError InternalError (''Error executing '' @ tool @ '': '' @ message e)))"
  proof (cases "fst (dispatch E st tool arguments)")
    case (Inr r)
    then show ?thesis by simp
  next
    case (Inl err)
    then show ?thesis
      by (cases "checkAuthentication E st (js_str (args_seller_id arguments))")
        (auto simp: dispatch_def tool_switch_def Let_def case_prod_beta
          split: if_splits sum.splits prod.splits)
  qed
next
  fix e st1 st2
  assume "tool \<noteq> ''myntra_authenticate''" "tool \<noteq> ''myntra_status''"
    "truthy (args_seller_id arguments)"
    "checkAuthentication E st (js_str (args_seller_id arguments)) = (True, st1)"
    "handleMyntraOperation E st1 tool (args_or_empty arguments) = (Inl e, st2)"
  then show "dispatch E st tool arguments =
         (Inl (McpError InternalError (''Error executing '' @ tool @ '': '' @ message e)), st2)"
    by (simp add: dispatch_def tool_switch_def)
qed

text \<open>A failing remote behind a valid session: the call of \<^verbatim>\<open>myntra_get_order\<close> throws.\<close>

lemma authed_check:
  "checkAuthentication api_down_env authed_state ''S1'' = (True, authed_state\<lparr>clock_reads := 1\<rparr>)"
  by (simp add: model_defs scenario_defs)

lemma authed_get_order:
  "handleMyntraOperation api_down_env (authed_state\<lparr>clock_reads := 1\<rparr>) ''myntra_get_order''
     (no_args\<lparr>seller_id := Some ''S1'', order_id := Some ''O1''\<rparr>) =
   (Inl (Error ''Order not found''),
    authed_state\<lparr>clock_reads := 1,
      sent := [\<lparr> req_method = ''GET'', req_url = ''https://api.myntra.com/seller/orders/O1'',
                 req_headers = [(''Authorization'', ''Bearer T1''),
                                (''Content-Type'', ''application/json'')],
                 req_data = None \<rparr>]\<rparr>)"
  by (simp add: model_defs getOrder_def scenario_defs)

theorem dispatch_outcome_witness:
  "dispatch api_down_env authed_state ''myntra_get_order''
     (Some (no_args\<lparr>seller_id := Some ''S1'', order_id := Some ''O1''\<rparr>)) =
   (Inl (McpError InternalError ''Error executing myntra_get_order: Order not found''),
    authed_state\<lparr>clock_reads := 1,
      sent := [\<lparr> req_method = ''GET'', req_url = ''https://api.myntra.com/seller/orders/O1'',
                 req_headers = [(''Authorization'', ''Bearer T1''),
                                (''Content-Type'', ''application/json'')],
                 req_data = None \<rparr>]\<rparr>)"
  using dispatch_outcome [of api_down_env authed_state "''myntra_get_order''"
      "Some (no_args\<lparr>seller_id := Some ''S1'', order_id := Some ''O1''\<rparr>)"]
    authed_check authed_get_order
  by (simp add: args_seller_id_def args_or_empty_def)

theorem dispatch_throws_counterexample:
  "fst (dispatch api_down_env authed_state ''myntra_get_order''
          (Some (no_args\<lparr>seller_id := Some ''S1'', order_id := Some ''O1''\<rparr>))) =
     Inl (McpError InternalError ''Error executing myntra_get_order: Order not found'')"
  by (simp add: model_defs getOrder_def scenario_defs)

section \<open>Revocation\<close>

text \<open>
  C8, amended. For every account identifier, \<open>revokeTokens\<close> has no error path (a failing
  \<^verbatim>\<open>del\<close> is logged and swallowed) and the logout route always answers 200; afterwards
  the in-process map holds no record for the account. When Redis is not configured, or
  its \<^verbatim>\<open>del\<close> command succeeds, the account holds no record at all: a read finds none,
  whether or not that read fails over to the map, and the authentication check is false.
  When the account held no record, both stores are left as they were. When the \<^verbatim>\<open>del\<close>
  command fails, the record stays in Redis.
\<close>

theorem revoke_outcome:
  "sellerTokens (revokeTokens E st sid) sid = None \<and>
   fst (auth_logout E st sid) =
     HttpReply 200 [(''success'', JBool True), (''message'', JStr ''Logged out successfully'')] \<and>
   snd (auth_logout E st sid) = revokeTokens E st sid \<and>
   (\<not> redis_enabled E \<or> \<not> redis_fails E (redis_ops st) \<longrightarrow>
      stored E (revokeTokens E st sid) sid = None \<and>
      fst (getTokens E (revokeTokens E st sid) (Some sid)) = None \<and>
      \<not> fst (checkAuthentication E (revokeTokens E st sid) sid)) \<and>
   (sellerTokens st sid = None \<and> redis_db st (redis_key sid) = None \<longrightarrow>
      sellerTokens (revokeTokens E st sid) = sellerTokens st \<and>
      redis_db (revokeTokens E st sid) = redis_db st)"
proof (intro conjI impI)
  show "sellerTokens (revokeTokens E st sid) sid = None" by simp
  show "fst (auth_logout E st sid) =
     HttpReply 200 [(''success'', JBool True), (''message'', JStr ''Logged out successfully'')]"
    by (simp add: auth_logout_def)
  show "snd (auth_logout E st sid) = revokeTokens E st sid"
    by (simp add: auth_logout_def)
next
  assume ok: "\<not> redis_enabled E \<or> \<not> redis_fails E (redis_ops st)"
  then show "stored E (revokeTokens E st sid) sid = None"
    by (auto simp: stored_def revokeTokens_def Let_def)
  show read: "fst (getTokens E (revokeTokens E st sid) (Some sid)) = None"
    using ok by (rule revoke_then_read)
  show "\<not> fst (checkAuthentication E (revokeTokens E st sid) sid)"
    using check_absent [OF read] by simp
next
  assume none: "sellerTokens st sid = None \<and> redis_db st (redis_key sid) = None"
  then have "(sellerTokens st)(sid := None) = sellerTokens st"
    and "(redis_db st)(redis_key sid := None) = redis_db st"
    by (metis fun_upd_triv)+
  then show "sellerTokens (revokeTokens E st sid) = sellerTokens st"
    and "redis_db (revokeTokens E st sid) = redis_db st"
    by (simp_all add: revokeTokens_def Let_def)
qed

text \<open>Redis in use, no fault: the record is gone from the database and a read finds nothing.\<close>

theorem revoke_outcome_witness:
  "sellerTokens (revokeTokens redis_env redis_state ''S1'') ''S1'' = None \<and>
   redis_db redis_state (redis_key ''S1'') = Some session_S1 \<and>
   stored redis_env
     (revokeTokens redis_env redis_state ''S1'') ''S1'' = None \<and>
   fst (getTokens redis_env
     (revokeTokens redis_env redis_state ''S1'') (Some ''S1'')) = None \<and>
   sellerTokens (revokeTokens stub_env init_state ''S1'') = sellerTokens init_state"
  using revoke_outcome [of redis_env redis_state "''S1''"]
    revoke_outcome [of stub_env init_state "''S1''"]
  by (simp add: scenario_defs redis_key_def)

text \<open>
  Redis in use and the \<^verbatim>\<open>del\<close> command failing: the logout reports success, and the next
  read, which succeeds, still finds the record.
\<close>

theorem revoke_counterexample:
  "fst (auth_logout redis_flaky_env redis_state ''S1'') =
     HttpReply 200 [(''success'', JBool True), (''message'', JStr ''Logged out successfully'')] \<and>
   fst (getTokens redis_flaky_env (revokeTokens redis_flaky_env redis_state ''S1'') (Some ''S1'')) =
     Some session_S1 \<and>
   fst (checkAuthentication redis_flaky_env (revokeTokens redis_flaky_env redis_state ''S1'') ''S1'')"
  by (simp add: model_defs auth_logout_def scenario_defs redis_key_def)

section \<open>A failing token request\<close>




section \<open>Refresh on expiry\<close>

text \<open>
  C2, amended. Let the record read for an account hold a non-empty access token and be
  stale (no expiry, or an expiry not after the clock). If it holds no refresh token, or
  an empty one, the check is false, sends nothing and leaves both stores as they are.
  If it holds a refresh token, the check sends the refresh request, and then:
  \<^item> when the remote answers, the check is true and has written the new record (the
    answer's access token, the answer's refresh token or else the prior one, the new
    expiry, the account identifier); with a reliable token store this is the record the
    account now has, and, when the new access token is not empty, the next outbound
    request carries it as its bearer credential;
  \<^item> when the request fails, the check is false and the in-process map holds no record
    for the account; with a reliable token store the account has no record at all and
    the next check is false too.
  A stale record without an access token is not refreshed: the check is false at once.
\<close>

theorem refresh_on_expiry:
  assumes "fst (getTokens E st (Some sid)) = Some t"
    and "truthy (accessToken t)"
    and "case expiresOn t of None \<Rightarrow> True | Some e \<Rightarrow> e \<le> int (clock E (clock_reads st))"
  shows
    "(\<not> truthy (refreshToken t) \<longrightarrow>
        \<not> fst (checkAuthentication E st sid) \<and>
        sent (snd (checkAuthentication E st sid)) = sent st \<and>
        sellerTokens (snd (checkAuthentication E st sid)) = sellerTokens st \<and>
        redis_db (snd (checkAuthentication E st sid)) = redis_db st) \<and>
     (\<forall>rt. refreshToken t = Some rt \<and> rt \<noteq> [] \<longrightarrow>
        sent (snd (checkAuthentication E st sid)) = sent st @ [refresh_request E rt] \<and>
        (\<forall>d. auth_remote E (length (sent st)) (refresh_request E rt) = Response d \<longrightarrow>
           fst (checkAuthentication E st sid) \<and>
           (sellerTokens (snd (checkAuthentication E st sid)) sid =
              Some (refreshed_tokens E (snd (not_expired E st t)) sid rt d) \<or>
            redis_db (snd (checkAuthentication E st sid)) (redis_key sid) =
              Some (refreshed_tokens E (snd (not_expired E st t)) sid rt d)) \<and>
           (reliable E \<longrightarrow>
              stored E (snd (checkAuthentication E st sid)) sid =
                Some (refreshed_tokens E (snd (not_expired E st t)) sid rt d) \<and>
              (\<forall>tok meth endpoint body. access_token d = Some tok \<and> tok \<noteq> [] \<longrightarrow>
                 sent (snd (makeApiRequest E (snd (checkAuthentication E st sid)) (Some sid)
                              meth endpoint body)) =
                   sent st @ [refresh_request E rt,
                     \<lparr> req_method = meth, req_url = myntraApiBase E @ endpoint,
                       req_headers = [(''Authorization'', ''Bearer '' @ tok),
                                      (''Content-Type'', ''application/json'')],
                       req_data = body \<rparr>]))) \<and>
        (\<forall>rm m. auth_remote E (length (sent st)) (refresh_request E rt) = Failure rm m \<longrightarrow>
           \<not> fst (checkAuthentication E st sid) \<and>
           sellerTokens (snd (checkAuthentication E st sid)) sid = None \<and>
           (reliable E \<longrightarrow>
              stored E (snd (checkAuthentication E st sid)) sid = None \<and>
              \<not> fst (checkAuthentication E (snd (checkAuthentication E st sid)) sid))))"
proof -
  let ?st1 = "snd (getTokens E st (Some sid))"
  have stale: "\<not> fst (not_expired E ?st1 t)"
    using assms(3) by (auto simp: not_expired_iff split: option.splits)
  have reads: "clock_reads (snd (not_expired E ?st1 t)) = clock_reads (snd (not_expired E st t))"
    by (rule not_expired_reads) simp
  have new: "refreshed_tokens E (snd (not_expired E ?st1 t)) sid rt d =
             refreshed_tokens E (snd (not_expired E st t)) sid rt d" for rt d
    by (simp add: refreshed_tokens_def reads)
  show ?thesis
  proof (cases rule: check_cases [of E st sid])
    case absent
    then show ?thesis using assms(1) by simp
  next
    case (no_access t')
    then show ?thesis using assms(1,2) by simp
  next
    case (valid t')
    then show ?thesis using assms(1) stale by simp
  next
    case (no_refresh t')
    then show ?thesis using assms(1) by (auto simp: )
  next
    case (refreshed t' rt d)
    then have t': "t' = t" using assms(1) by simp
    have "stored E (snd (checkAuthentication E st sid)) sid =
            Some (refreshed_tokens E (snd (not_expired E st t)) sid rt d)" if "reliable E"
      using that refreshed by (simp add: stored_storeTokens new t')
    moreover have "fst (getTokens E (snd (checkAuthentication E st sid)) (Some sid)) =
            Some (refreshed_tokens E (snd (not_expired E st t)) sid rt d)" if "reliable E"
      using that refreshed by (simp add: getTokens_reliable stored_storeTokens new t')
    moreover have "sent (snd (checkAuthentication E st sid)) = sent st @ [refresh_request E rt]"
      using refreshed by (simp add: refresh_request_def)
    moreover have "sellerTokens (snd (checkAuthentication E st sid)) sid =
              Some (refreshed_tokens E (snd (not_expired E st t)) sid rt d) \<or>
            redis_db (snd (checkAuthentication E st sid)) (redis_key sid) =
              Some (refreshed_tokens E (snd (not_expired E st t)) sid rt d)"
      using refreshed by (auto simp: storeTokens_def new t')
    ultimately show ?thesis
      using refreshed t'
      by (auto simp: makeApiRequest_sent refreshed_tokens_def)
  next
    case (revoked t' rt rm m)
    then have t': "t' = t" using assms(1) by simp
    have gone: "stored E (snd (checkAuthentication E st sid)) sid = None" if "reliable E"
      using that revoked by (simp add: stored_revokeTokens)
    then have "\<not> fst (checkAuthentication E (snd (checkAuthentication E st sid)) sid)"
      if "reliable E"
      using that check_absent [of E "snd (checkAuthentication E st sid)" sid]
      by (simp add: getTokens_reliable)
    moreover have "sent (snd (checkAuthentication E st sid)) = sent st @ [refresh_request E rt]"
      using revoked by (simp add: refresh_request_def)
    ultimately show ?thesis
      using revoked t' gone by auto
  qed
qed

text \<open>
  The stub remote refreshes the stale session of S1, and the next request carries the new
  token; a remote that rejects the refresh makes the check false, and false again.
\<close>

theorem refresh_on_expiry_witness:
  "fst (checkAuthentication stub_env stale_state ''S1'') \<and>
   stored stub_env (snd (checkAuthentication stub_env stale_state ''S1'')) ''S1'' = Some session_S1 \<and>
   sent (snd (makeApiRequest stub_env (snd (checkAuthentication stub_env stale_state ''S1''))
                (Some ''S1'') ''GET'' ''/orders/O1'' None)) =
     [refresh_request stub_env ''R0'',
      \<lparr> req_method = ''GET'', req_url = ''https://api.myntra.com/seller/orders/O1'',
        req_headers = [(''Authorization'', ''Bearer T1''), (''Content-Type'', ''application/json'')],
        req_data = None \<rparr>] \<and>
   \<not> fst (checkAuthentication auth_down_env stale_state ''S1'') \<and>
   sellerTokens (snd (checkAuthentication auth_down_env stale_state ''S1'')) ''S1'' = None \<and>
   \<not> fst (checkAuthentication auth_down_env
            (snd (checkAuthentication auth_down_env stale_state ''S1'')) ''S1'')"
proof -
  have read: "fst (getTokens E stale_state (Some ''S1'')) = Some stale_S1"
    if "\<not> redis_enabled E" for E
    using that by (simp add: getTokens_def map_get_def stale_state_def)
  have access: "truthy (accessToken stale_S1)"
    by (simp add: stale_S1_def)
  have stale: "case expiresOn stale_S1 of None \<Rightarrow> True
               | Some e \<Rightarrow> e \<le> int (clock E (clock_reads stale_state))"
    if "clock E 0 = 1000" for E
    using that by (simp add: stale_S1_def stale_state_def init_state_def)
  have up: "\<not> redis_enabled stub_env" "clock stub_env 0 = 1000" "reliable stub_env"
    "auth_remote stub_env (length (sent stale_state)) (refresh_request stub_env ''R0'') =
       Response stub_response"
    by (simp_all add: stub_env_def reliable_def)
  have down: "\<not> redis_enabled auth_down_env" "clock auth_down_env 0 = 1000" "reliable auth_down_env"
    "auth_remote auth_down_env (length (sent stale_state)) (refresh_request auth_down_env ''R0'') =
       Failure (Some ''Invalid credentials'') ''Request failed with status code 401''"
    by (simp_all add: auth_down_env_def stub_env_def reliable_def)
  have new: "refreshed_tokens stub_env (snd (not_expired stub_env stale_state stale_S1)) ''S1'' ''R0''
               stub_response = session_S1"
    by (simp add: refreshed_tokens_def not_expired_def Date_now_def expiry_def scenario_defs)
  show ?thesis
    using refresh_on_expiry [OF read [OF up(1)] access stale [OF up(2)]]
      refresh_on_expiry [OF read [OF down(1)] access stale [OF down(2)]]
      up down new
    by (simp add: stale_S1_def stub_response_def stale_state_def init_state_def stub_env_def)
qed

text \<open>
  Three cases in which a stale record with a refresh token is not handled that way.
  A record without access token: the check is false, nothing is sent (the stub remote
  would have refreshed) and the record stays. Redis with a failing \<^verbatim>\<open>del\<close>: a rejected
  refresh makes the check false, but the record stays in Redis and the next check, whose
  refresh the remote accepts, is true. A refresh answer without access token: the check
  is true, and the next outbound call throws without sending.
\<close>

theorem refresh_on_expiry_counterexample:
  "checkAuthentication stub_env no_access_state ''S1'' = (False, no_access_state) \<and>
   \<not> fst (checkAuthentication redis_relogin_env redis_stale_state ''S1'') \<and>
   fst (checkAuthentication redis_relogin_env
          (snd (checkAuthentication redis_relogin_env redis_stale_state ''S1'')) ''S1'') \<and>
   fst (checkAuthentication tokenless_env stale_state ''S1'') \<and>
   makeApiRequest tokenless_env (snd (checkAuthentication tokenless_env stale_state ''S1''))
       (Some ''S1'') ''GET'' ''/orders/O1'' None =
     (Inl (Error ''Not authenticated''), snd (checkAuthentication tokenless_env stale_state ''S1''))"
  by (simp add: model_defs scenario_defs redis_key_def Let_def)

section \<open>Authentication, then a catalog tool\<close>

text \<open>
  C6, amended. Let the token store be reliable, let the account not be authenticated yet,
  and let the remote answer the token request of \<^verbatim>\<open>myntra_authenticate\<close> with a non-empty
  access token \<open>tok\<close>, a refresh token and \<^verbatim>\<open>expires_in = n\<close>. Then the call succeeds, and
  the record the account now has holds \<open>tok\<close>, the answer's refresh token and the expiry
  \<open>now + n * 1000\<close> in epoch milliseconds, \<open>now\<close> being the clock reading taken when the
  record is built. Every call of a catalog tool other than \<^verbatim>\<open>myntra_authenticate\<close> and
  \<^verbatim>\<open>myntra_status\<close> for the account that follows, with the clock still before that
  expiry, sends exactly one request, whose bearer credential is \<open>tok\<close>; for
  \<^verbatim>\<open>myntra_list_products\<close> it is a \<^verbatim>\<open>GET\<close>. In the scenario with S1, T1, R1 and 3600,
  evaluated below, that request goes to \<^verbatim>\<open>/products?limit=50&offset=0\<close> with
  \<^verbatim>\<open>Bearer T1\<close>. Without a reliable token store this fails: when Redis is configured
  and the write of the new record fails, the record goes to the in-process map only,
  the next read asks Redis, and the tool call is refused without a request.
\<close>

theorem authenticate_then_tool:
  assumes "reliable E"
    and "seller_id args = Some sid" and "sid \<noteq> []"
    and "truthy (api_key args)" and "truthy (api_secret args)"
    and "checkAuthentication E st sid = (False, st1)"
    and "auth_remote E (length (sent st1))
           (token_request E sid (js_str (api_key args)) (js_str (api_secret args))) = Response d"
    and "access_token d = Some tok" and "tok \<noteq> []" and "expires_in d = Some n"
    and "seller_id a = Some sid"
    and "int (clock E (Suc (clock_reads st1))) < int (clock E (clock_reads st1)) + n * 1000"
    and "tool \<in> set catalog" and "tool \<noteq> ''myntra_authenticate''"
    and "tool \<noteq> ''myntra_status''"
  shows "fst (dispatch E st ''myntra_authenticate'' (Some args)) = Inr (authenticated sid (Some n)) \<and>
         stored E (snd (dispatch E st ''myntra_authenticate'' (Some args))) sid =
           Some \<lparr> accessToken = Some tok, refreshToken = refresh_token d,
                  expiresOn = Some (int (clock E (clock_reads st1)) + n * 1000),
                  sellerId = Some sid \<rparr> \<and>
         (\<exists>req. sent (snd (dispatch E (snd (dispatch E st ''myntra_authenticate'' (Some args)))
                              tool (Some a))) =
                  sent (snd (dispatch E st ''myntra_authenticate'' (Some args))) @ [req] \<and>
                bearer req = Some (''Bearer '' @ tok)) \<and>
         (\<exists>req. sent (snd (dispatch E (snd (dispatch E st ''myntra_authenticate'' (Some args)))
                              ''myntra_list_products'' (Some a))) =
                  sent (snd (dispatch E st ''myntra_authenticate'' (Some args))) @ [req] \<and>
                req_method req = ''GET'' \<and> bearer req = Some (''Bearer '' @ tok))"
proof -
  let ?tokens = "\<lparr> accessToken = Some tok, refreshToken = refresh_token d,
                    expiresOn = Some (int (clock E (clock_reads st1)) + n * 1000),
                    sellerId = Some sid \<rparr>"
  let ?st2 = "storeTokens E
                (st1\<lparr>sent := sent st1 @
                        [token_request E sid (js_str (api_key args)) (js_str (api_secret args))],
                      clock_reads := Suc (clock_reads st1)\<rparr>) sid ?tokens"
  have auth: "dispatch E st ''myntra_authenticate'' (Some args) =
                (Inr (authenticated sid (Some n)), ?st2)"
    using assms(2-10)
    by (simp add: dispatch_def tool_switch_def args_or_empty_def handleAuthenticate_def
        axios_post_def token_request_def Date_now_def expiry_def Let_def)
  have kept: "stored E ?st2 sid = Some ?tokens"
    using assms(1) by (rule stored_storeTokens)
  have reads: "clock_reads ?st2 = Suc (clock_reads st1)"
    by simp
  let ?st3 = "(snd (getTokens E ?st2 (Some sid)))\<lparr>clock_reads := Suc (clock_reads ?st2)\<rparr>"
  have gate: "tool_switch E ?st2 op (Some a) =
                handleMyntraOperation E ?st3 op (args_or_empty (Some a))"
    if "op \<noteq> ''myntra_authenticate''" and "op \<noteq> ''myntra_status''" for op
    using assms(1) kept _ assms(9) _ _ assms(3) _ that
  proof (rule gate_passed)
    show "accessToken ?tokens = Some tok" by simp
    show "expiresOn ?tokens = Some (int (clock E (clock_reads st1)) + n * 1000)" by simp
    show "int (clock E (clock_reads ?st2)) < int (clock E (clock_reads st1)) + n * 1000"
      using assms(12) by (simp only: reads)
    show "args_seller_id (Some a) = Some sid"
      using assms(11) by (simp add: args_seller_id_def)
  qed
  have through: "snd (dispatch E ?st2 op (Some a)) = snd (handleMyntraOperation E ?st3 op a)"
    if "op \<noteq> ''myntra_authenticate''" and "op \<noteq> ''myntra_status''" for op
    by (simp add: dispatch_def gate [OF that] args_or_empty_def split: prod.splits sum.splits)
  have "stored E ?st3 sid = stored E ?st2 sid"
    by (rule stored_frame) simp_all
  then have read: "fst (getTokens E ?st3 (Some sid)) = Some ?tokens"
    using assms(1) kept by (simp add: getTokens_reliable)
  have same: "sent ?st3 = sent ?st2"
    by simp
  have "\<exists>req. sent (snd (handleMyntraOperation E ?st3 tool a)) = sent ?st3 @ [req] \<and>
               bearer req = Some (''Bearer '' @ tok)"
    using read _ assms(9,11,13,14,15) by (rule catalog_tool_sent) simp
  then have any: "\<exists>req. sent (snd (dispatch E ?st2 tool (Some a))) = sent ?st2 @ [req] \<and>
               bearer req = Some (''Bearer '' @ tok)"
    by (simp only: through [OF assms(14,15)] same)
  have "sent (snd (listProducts E ?st3 a)) =
           sent ?st3 @ [\<lparr> req_method = ''GET'',
             req_url = myntraApiBase E @ ''/products?'' @
               params_toString
                 (append_status (default_str (status a) ''all'') @ append_if ''category'' (category a) @
                  [(''limit'', number_toString (default_num (limit a) 50)),
                   (''offset'', number_toString (default_num (offset a) 0))]),
             req_headers = [(''Authorization'', ''Bearer '' @ tok),
                            (''Content-Type'', ''application/json'')],
             req_data = None \<rparr>]"
    using read _ assms(9,11) by (rule listProducts_sent) simp
  moreover have "snd (dispatch E ?st2 ''myntra_list_products'' (Some a)) =
                 snd (listProducts E ?st3 a)"
    by (simp add: through handleMyntraOperation_def)
  ultimately have products: "\<exists>req. sent (snd (dispatch E ?st2 ''myntra_list_products'' (Some a))) =
                 sent ?st2 @ [req] \<and> req_method req = ''GET'' \<and>
                 bearer req = Some (''Bearer '' @ tok)"
    by (simp add: same)
  show ?thesis
    using kept any products by (simp only: auth fst_conv snd_conv)
qed

text \<open>
  The scenario itself: account S1, the stub remote, and then \<^verbatim>\<open>myntra_list_products\<close>
  with no argument but \<^verbatim>\<open>seller_id\<close>.
\<close>

theorem authenticate_then_tool_witness:
  "fst (dispatch stub_env init_state ''myntra_authenticate'' (Some credentials_S1)) =
     Inr (authenticated ''S1'' (Some 3600)) \<and>
   stored stub_env (snd (dispatch stub_env init_state ''myntra_authenticate'' (Some credentials_S1)))
     ''S1'' = Some session_S1 \<and>
   sent (snd (dispatch stub_env
                (snd (dispatch stub_env init_state ''myntra_authenticate'' (Some credentials_S1)))
                ''myntra_list_products'' (Some (no_args\<lparr>seller_id := Some ''S1''\<rparr>)))) =
     [token_request stub_env ''S1'' ''k'' ''s'',
      \<lparr> req_method = ''GET'',
        req_url = ''https://api.myntra.com/seller/products?limit=50&offset=0'',
        req_headers = [(''Authorization'', ''Bearer T1''), (''Content-Type'', ''application/json'')],
        req_data = None \<rparr>]"
proof -
  have check: "checkAuthentication stub_env init_state ''S1'' = (False, init_state)"
    by (simp add: model_defs scenario_defs)
  have remote: "auth_remote stub_env (length (sent init_state))
      (token_request stub_env ''S1'' (js_str (api_key credentials_S1))
         (js_str (api_secret credentials_S1))) = Response stub_response"
    by (simp add: stub_env_def)
  have facts: "reliable stub_env" "seller_id credentials_S1 = Some ''S1''"
    "truthy (api_key credentials_S1)" "truthy (api_secret credentials_S1)"
    "access_token stub_response = Some ''T1''" "expires_in stub_response = Some 3600"
    "seller_id (no_args\<lparr>seller_id := Some ''S1''\<rparr>) = Some ''S1''"
    "int (clock stub_env (Suc (clock_reads init_state))) <
       int (clock stub_env (clock_reads init_state)) + 3600 * 1000"
    by (simp_all add: reliable_def scenario_defs)
  have sent: "sent (snd (dispatch stub_env
                (snd (dispatch stub_env init_state ''myntra_authenticate'' (Some credentials_S1)))
                ''myntra_list_products'' (Some (no_args\<lparr>seller_id := Some ''S1''\<rparr>)))) =
     [token_request stub_env ''S1'' ''k'' ''s'',
      \<lparr> req_method = ''GET'',
        req_url = ''https://api.myntra.com/seller/products?limit=50&offset=0'',
        req_headers = [(''Authorization'', ''Bearer T1''), (''Content-Type'', ''application/json'')],
        req_data = None \<rparr>]"
    using default_query
    by (simp add: model_defs listProducts_def token_request_def append_status_def append_if_def
        default_str_def default_num_def scenario_defs Let_def)
  show ?thesis
    using authenticate_then_tool [OF facts(1,2) _ facts(3,4) check remote facts(5) _
        facts(6,7,8), of "''myntra_list_products''"] sent
    by (simp add: scenario_defs catalog_def)
qed

text \<open>
  Redis configured and the write of the new record failing: the authentication succeeds,
  the record is in the in-process map only, and the call that follows is refused without
  a request.
\<close>

theorem authenticate_then_tool_counterexample:
  "fst (dispatch setex_down_env init_state ''myntra_authenticate'' (Some credentials_S1)) =
     Inr (authenticated ''S1'' (Some 3600)) \<and>
   sellerTokens (snd (dispatch setex_down_env init_state ''myntra_authenticate''
                        (Some credentials_S1))) ''S1'' = Some session_S1 \<and>
   redis_db (snd (dispatch setex_down_env init_state ''myntra_authenticate''
                    (Some credentials_S1))) (redis_key ''S1'') = None \<and>
   fst (dispatch setex_down_env
          (snd (dispatch setex_down_env init_state ''myntra_authenticate'' (Some credentials_S1)))
          ''myntra_list_products'' (Some (no_args\<lparr>seller_id := Some ''S1''\<rparr>))) =
     Inr not_authenticated \<and>
   sent (snd (dispatch setex_down_env
          (snd (dispatch setex_down_env init_state ''myntra_authenticate'' (Some credentials_S1)))
          ''myntra_list_products'' (Some (no_args\<lparr>seller_id := Some ''S1''\<rparr>)))) =
     [token_request setex_down_env ''S1'' ''k'' ''s'']"
  by (simp add: model_defs token_request_def scenario_defs redis_key_def Let_def)

section \<open>Authenticating twice\<close>

text \<open>
  C3, amended. Let \<^verbatim>\<open>myntra_authenticate\<close> be called twice in succession for an account,
  with its identifier and credentials, and let the account hold a currently valid
  session at the second call: the record read has a non-empty access token and an expiry
  after the clock. Then the second call returns the success reply that names the
  account, sends no request at all and leaves both stores as they are. Across the two
  calls at most one request went to the token endpoint; the requests of the two calls
  are at most one in all, unless the first call found a stale record, had its refresh
  request rejected and then sent the token request. The first call, when it succeeded,
  named the same account: its reply is the one above or the reply of a fresh
  authentication, both of which carry \<^verbatim>\<open>Seller ID: <account>\<close>.
\<close>

theorem authenticate_twice:
  assumes "seller_id args = Some sid" and "sid \<noteq> []"
    and "truthy (api_key args)" and "truthy (api_secret args)"
    and "dispatch E st0 ''myntra_authenticate'' (Some args) = (Inr r1, st)"
    and "fst (getTokens E st (Some sid)) = Some t" and "truthy (accessToken t)"
    and "expiresOn t = Some e" and "int (clock E (clock_reads st)) < e"
  shows "fst (dispatch E st ''myntra_authenticate'' (Some args)) =
           Inr \<lparr> content_text = ''Already authenticated with Myntra!'' @ nl @ nl @ ''Seller ID: '' @ sid,
                  isError = False \<rparr> \<and>
         sent (snd (dispatch E st ''myntra_authenticate'' (Some args))) = sent st \<and>
         sellerTokens (snd (dispatch E st ''myntra_authenticate'' (Some args))) = sellerTokens st \<and>
         redis_db (snd (dispatch E st ''myntra_authenticate'' (Some args))) = redis_db st \<and>
         length (filter (is_token_request E)
                   (sent (snd (dispatch E st ''myntra_authenticate'' (Some args))))) \<le>
           Suc (length (filter (is_token_request E) (sent st0))) \<and>
         (length (sent st) \<le> Suc (length (sent st0)) \<or>
          (\<exists>rt. sent st =
             sent st0 @ [refresh_request E rt,
                         token_request E sid (js_str (api_key args)) (js_str (api_secret args))])) \<and>
         (isError r1 \<or> r1 = already_authenticated sid \<or>
          (\<exists>n. r1 = authenticated sid n))"
proof -
  have check: "checkAuthentication E st sid =
      (True, (snd (getTokens E st (Some sid)))\<lparr>clock_reads := Suc (clock_reads st)\<rparr>)"
    using assms(6-9) by (rule check_valid)
  have second: "dispatch E st ''myntra_authenticate'' (Some args) =
      (Inr (already_authenticated sid),
       (snd (getTokens E st (Some sid)))\<lparr>clock_reads := Suc (clock_reads st)\<rparr>)"
    using assms(1-4) check
    by (simp add: dispatch_def tool_switch_def args_or_empty_def handleAuthenticate_def)
  have first: "handleAuthenticate E st0 args = (r1, st)"
    using assms(5)
    by (auto simp: dispatch_def tool_switch_def args_or_empty_def split: prod.splits)
  have count: "length (filter (is_token_request E) (sent st)) \<le>
                 Suc (length (filter (is_token_request E) (sent st0)))"
    using handleAuthenticate_token_requests [of E st0 args] by (simp add: first)
  have reports: "isError r1 \<or> r1 = already_authenticated sid \<or>
                 (\<exists>n. r1 = authenticated sid n)"
    using handleAuthenticate_reports [of E st0 args] assms(1) by (auto simp: first)
  have total: "length (sent st) \<le> Suc (length (sent st0)) \<or>
          (\<exists>rt. sent st =
             sent st0 @ [refresh_request E rt,
                         token_request E sid (js_str (api_key args)) (js_str (api_secret args))])"
    using handleAuthenticate_sent [of E st0 args] assms(1) by (simp add: first)
  show ?thesis
    using count total reports by (simp add: second already_authenticated_def)
qed

text \<open>Account S1 against the stub remote: one token request in all, the same account twice.\<close>

theorem authenticate_twice_witness:
  "fst (dispatch stub_env init_state ''myntra_authenticate'' (Some credentials_S1)) =
     Inr (authenticated ''S1'' (Some 3600)) \<and>
   fst (dispatch stub_env
          (snd (dispatch stub_env init_state ''myntra_authenticate'' (Some credentials_S1)))
          ''myntra_authenticate'' (Some credentials_S1)) =
     Inr \<lparr> content_text = ''Already authenticated with Myntra!'' @ nl @ nl @ ''Seller ID: S1'',
            isError = False \<rparr> \<and>
   sent (snd (dispatch stub_env
          (snd (dispatch stub_env init_state ''myntra_authenticate'' (Some credentials_S1)))
          ''myntra_authenticate'' (Some credentials_S1))) =
     [token_request stub_env ''S1'' ''k'' ''s'']"
proof -
  let ?st = "init_state\<lparr>sellerTokens := [''S1'' \<mapsto> session_S1], clock_reads := 1,
                         sent := [token_request stub_env ''S1'' ''k'' ''s'']\<rparr>"
  have first: "dispatch stub_env init_state ''myntra_authenticate'' (Some credentials_S1) =
                 (Inr (authenticated ''S1'' (Some 3600)), ?st)"
    by (simp add: model_defs token_request_def scenario_defs Let_def)
  have valid: "fst (getTokens stub_env ?st (Some ''S1'')) = Some session_S1"
    "truthy (accessToken session_S1)" "expiresOn session_S1 = Some 3601000"
    "int (clock stub_env (clock_reads ?st)) < 3601000"
    by (simp_all add: getTokens_def map_get_def scenario_defs)
  have creds: "seller_id credentials_S1 = Some ''S1''" "truthy (api_key credentials_S1)"
    "truthy (api_secret credentials_S1)"
    by (simp_all add: scenario_defs)
  show ?thesis
    using authenticate_twice [OF creds(1) _ creds(2,3) first valid]
    by (auto simp: first)
qed

text \<open>
  A stale record whose refresh token the remote no longer accepts: the first call sends
  the refresh request and then the token request, the second call finds the new session.
\<close>

theorem authenticate_twice_counterexample:
  "fst (dispatch relogin_env stale_state ''myntra_authenticate'' (Some credentials_S1)) =
     Inr (authenticated ''S1'' (Some 3600)) \<and>
   fst (dispatch relogin_env
          (snd (dispatch relogin_env stale_state ''myntra_authenticate'' (Some credentials_S1)))
          ''myntra_authenticate'' (Some credentials_S1)) =
     Inr (already_authenticated ''S1'') \<and>
   sent (snd (dispatch relogin_env
          (snd (dispatch relogin_env stale_state ''myntra_authenticate'' (Some credentials_S1)))
          ''myntra_authenticate'' (Some credentials_S1))) =
     [refresh_request relogin_env ''R0'', token_request relogin_env ''S1'' ''k'' ''s'']"
  by (simp add: model_defs refresh_request_def token_request_def scenario_defs Let_def)

section \<open>The account a record names\<close>

text \<open>
  C7. In every state the server can reach from its start, by any sequence of tool calls
  and of requests to the login, status and logout routes, every record of the in-process
  map and every record of Redis under the key of an account has that account as its
  \<^verbatim>\<open>sellerId\<close>. And each of these operations, among them the three that write a record
  (the authentication tool, the login route and the refresh inside the authentication
  check), keeps this true from any state in which it holds.
\<close>

theorem session_key_invariant:
  "(reachable E st \<longrightarrow> store_inv st) \<and>
   (store_inv st \<longrightarrow>
      store_inv (snd (dispatch E st tool arguments)) \<and>
      store_inv (snd (auth_login E st k apiKey apiSecret)) \<and>
      store_inv (snd (auth_status E st sid)) \<and>
      store_inv (snd (auth_logout E st sid)))"
  by (simp add: store_inv_reachable store_inv_dispatch store_inv_auth_login
      store_inv_auth_status store_inv_auth_logout)

text \<open>After the authentication of S1 the map holds a record under S1 that names S1.\<close>

theorem session_key_invariant_witness:
  "reachable stub_env (snd (dispatch stub_env init_state ''myntra_authenticate'' (Some credentials_S1))) \<and>
   store_inv (snd (dispatch stub_env init_state ''myntra_authenticate'' (Some credentials_S1))) \<and>
   sellerTokens (snd (dispatch stub_env init_state ''myntra_authenticate'' (Some credentials_S1)))
     ''S1'' = Some session_S1 \<and>
   sellerId session_S1 = Some ''S1''"
proof -
  have "reachable stub_env
          (snd (dispatch stub_env init_state ''myntra_authenticate'' (Some credentials_S1)))"
    by (intro reachable.tool_call reachable.start)
  moreover have "sellerTokens
      (snd (dispatch stub_env init_state ''myntra_authenticate'' (Some credentials_S1))) ''S1'' =
        Some session_S1"
    by (simp add: model_defs scenario_defs Let_def)
  ultimately show ?thesis
    using session_key_invariant [of stub_env
        "snd (dispatch stub_env init_state ''myntra_authenticate'' (Some credentials_S1))"]
    by (simp add: session_S1_def)
qed

end
